theory Spec2Isabelle
  imports Complex_Main "HOL-Library.List_Lexorder" "HOL-Library.Log_Nat"
begin

section \<open>Double-precision arithmetic\<close>

text \<open>
  The embedding follows \<^verbatim>\<open>shell-monitor-app/shell_tracker_core.py\<close>. A Python float is an
  IEEE 754 double. A double is modelled by the real number it denotes, and an arithmetic
  operation of the source on prices, percentages and scores is the exact operation followed
  by \<^verbatim>\<open>fl\<close>, the rounding to the nearest number with a 53-bit significand, ties to the even
  significand. The exponent range is taken as unbounded: overflow to infinity, subnormal
  numbers and NaN are outside the model. A decimal literal of the source such as \<^verbatim>\<open>0.6\<close> is the
  double \<open>fl 0.6\<close>; integers below \<open>2^53\<close> and their negations are doubles as they are.
  Clock readings are kept as reals and their differences as exact.
\<close>

definition pow2 :: "int \<Rightarrow> real" where
  "pow2 k = (if k \<ge> 0 then 2 ^ nat k else 1 / 2 ^ nat (- k))"

definition round_half_even :: "real \<Rightarrow> int" where
  "round_half_even y =
     (let n = \<lfloor>y\<rfloor>; r = y - of_int n
      in if r < 1 / 2 then n else if r > 1 / 2 then n + 1 else if even n then n else n + 1)"

text \<open>For \<open>x > 0\<close>, the exponent \<open>k\<close> of the leading bit: \<open>2^k \<le> x < 2^(k+1)\<close>.\<close>

definition ilog2 :: "real \<Rightarrow> int" where
  "ilog2 x = (if x \<ge> 1 then bitlen \<lfloor>x\<rfloor> - 1 else - bitlen (\<lceil>1 / x\<rceil> - 1))"

definition fl :: "real \<Rightarrow> real" where
  "fl x = (if x = 0 then 0
           else (let e = ilog2 \<bar>x\<bar> - 52
                 in of_int (round_half_even (x / pow2 e)) * pow2 e))"

text \<open>Python's \<^verbatim>\<open>int(x)\<close> on a float: truncation towards zero.\<close>

definition py_int :: "real \<Rightarrow> int" where
  "py_int x = (if x \<ge> 0 then \<lfloor>x\<rfloor> else \<lceil>x\<rceil>)"

section \<open>Data model of \<^verbatim>\<open>ShellTrackerCore\<close>\<close>

text \<open>
  A value that may be \<^verbatim>\<open>None\<close> is an \<^typ>\<open>'a option\<close>. Short ASCII labels (\<^verbatim>\<open>'LONG'\<close>, \<^verbatim>\<open>'BUY'\<close>,
  \<^verbatim>\<open>"neutral"\<close>) are \<^typ>\<open>string\<close>; free text (headlines, summaries, the Chinese status
  messages) is a list of Unicode code points, which is what a Python \<^verbatim>\<open>str\<close> is and what
  \<^verbatim>\<open>sorted\<close> compares.
\<close>

type_synonym unicode = "nat list"

datatype error = ZeroDivisionError

text \<open>The result tuple \<^verbatim>\<open>(summary, label, score)\<close> of the news analysis.\<close>

type_synonym analysis = "unicode \<times> string option \<times> real"

text \<open>
  The keys of \<^verbatim>\<open>self.config\<close> that the modelled methods read. A key read with
  \<^verbatim>\<open>.get(key, default)\<close> is optional and its default is applied where it is read.
\<close>

record config =
  stop_loss_percent :: real
  take_profit_percent :: real
  sentiment_influence_enabled :: "bool option"
  sentiment_influence_weight :: "real option"
  price_alert_threshold :: "real option"
  news_enabled :: bool
  gnews_api_key :: "string option"
  newsapi_api_key :: "string option"
  deepseek_api_key :: "string option"

text \<open>
  The attributes of the tracker object. \<^verbatim>\<open>client\<close> only records whether a Binance client
  is set; \<^verbatim>\<open>last_simulated_price\<close> is the attribute \<^verbatim>\<open>_last_simulated_price\<close>, with
  \<^term>\<open>None\<close> also standing for the attribute not existing yet.
\<close>

record tracker =
  client :: bool
  previous_price :: "real option"
  entry_price :: "real option"
  position :: "string option"
  price_log :: "(real \<times> real) list"
  account_balance :: real
  account_value :: real
  stop_flag :: bool
  current_sentiment :: "string option"
  sentiment_score :: real
  last_processed_news :: "unicode option"
  news_cache :: "int \<rightharpoonup> (real \<times> analysis)"
  cache_expiry :: real
  last_simulated_price :: "real option"

text \<open>
  One row of the candle DataFrame, restricted to the columns \<^verbatim>\<open>check_signals\<close> reads. A cell
  is \<^term>\<open>None\<close> when \<^verbatim>\<open>row.get(column)\<close> is \<^verbatim>\<open>None\<close> (no such column) or \<^verbatim>\<open>pd.isna\<close> holds of
  it (\<^verbatim>\<open>NaN\<close>, \<^verbatim>\<open>pd.NA\<close>). The DataFrame is the list of its rows, oldest first; a frame with
  rows and no columns is a list of rows with every cell \<^term>\<open>None\<close>.
\<close>

record row =
  close :: "real option"
  ma5 :: "real option"
  ma25 :: "real option"
  rsi :: "real option"
  macd :: "real option"
  macd_signal :: "real option"

datatype recommendation = BuyAdvice real | SellAdvice real | NeutralAdvice

text \<open>
  The Qt signals the modelled methods emit, in emission order. \<^verbatim>\<open>DeepSeekRequest\<close> is not a
  Qt signal: it records the HTTP POST to the completion endpoint with the headlines sent.
  Console output and the price log file are left out.
\<close>

datatype event =
    PriceUpdated real real
  | TradeSignal string real
  | StopConditionTriggered string real real
  | SignalStatusUpdated string recommendation int
  | AlertTriggered string real
  | AccountBalanceUpdated real real
  | NewsProcessed unicode "string option" real
  | ChartDataReady "row list"
  | MonitoringError
  | DeepSeekRequest "unicode list"

text \<open>The attribute values set by \<^verbatim>\<open>__init__\<close>.\<close>

definition init :: tracker where
  "init = \<lparr> client = False, previous_price = None, entry_price = None, position = None,
            price_log = [], account_balance = 0, account_value = 0, stop_flag = False,
            current_sentiment = None, sentiment_score = 0, last_processed_news = None,
            news_cache = Map.empty, cache_expiry = 3600, last_simulated_price = None \<rparr>"

text \<open>The values written by \<^verbatim>\<open>create_config.py\<close>.\<close>

definition default_config :: config where
  "default_config = \<lparr> stop_loss_percent = 5, take_profit_percent = 10,
            sentiment_influence_enabled = Some True, sentiment_influence_weight = Some (1/2),
            price_alert_threshold = Some 1, news_enabled = True,
            gnews_api_key = Some [], newsapi_api_key = Some [], deepseek_api_key = Some [] \<rparr>"

text \<open>Python truthiness of an optional string and of an optional float.\<close>

definition truthy_str :: "string option \<Rightarrow> bool" where
  "truthy_str s = (case s of None \<Rightarrow> False | Some x \<Rightarrow> x \<noteq> [])"

definition truthy_num :: "real option \<Rightarrow> bool" where
  "truthy_num p = (case p of None \<Rightarrow> False | Some x \<Rightarrow> x \<noteq> 0)"

section \<open>Market data gateway\<close>

text \<open>
  \<^verbatim>\<open>random.uniform(a, b)\<close> is \<^verbatim>\<open>a + (b - a) * self.random()\<close>; \<^term>\<open>u\<close> is the value of
  \<^verbatim>\<open>random()\<close>, a double in \<open>[0, 1)\<close>.
\<close>

definition uniform :: "real \<Rightarrow> real \<Rightarrow> real \<Rightarrow> real" where
  "uniform a b u = fl (a + fl (fl (b - a) * u))"

text \<open>
  \<^verbatim>\<open>_get_simulated_price()\<close>. \<^term>\<open>u\<close> is the value of \<^verbatim>\<open>random()\<close> behind the method's
  \<^verbatim>\<open>random.uniform(-0.005, 0.005)\<close>; the first call draws none.
\<close>

definition get_simulated_price :: "tracker \<Rightarrow> real \<Rightarrow> tracker \<times> real" where
  "get_simulated_price t u =
     (case last_simulated_price t of
        Some last_price \<Rightarrow>
          (let change = uniform (- fl 0.005) (fl 0.005) u;
               new_price = fl (last_price * fl (1 + change))
           in (t\<lparr>last_simulated_price := Some new_price\<rparr>, new_price))
      | None \<Rightarrow> (t\<lparr>last_simulated_price := Some (fl 1.2345)\<rparr>, fl 1.2345))"

text \<open>
  \<^verbatim>\<open>get_latest_price()\<close>. \<^term>\<open>ticker\<close> is the price the exchange returns, \<^term>\<open>None\<close> when
  the request or the conversion of its answer raises.
\<close>

definition get_latest_price :: "tracker \<Rightarrow> real option \<Rightarrow> real \<Rightarrow> tracker \<times> event list \<times> real" where
  "get_latest_price t ticker u =
     (if \<not> client t then
        (let (t', p) = get_simulated_price t u in (t', [MonitoringError], p))
      else case ticker of
        Some p \<Rightarrow> (t, [], p)
      | None \<Rightarrow> (let (t', p) = get_simulated_price t u in (t', [MonitoringError], p)))"

text \<open>Repeated fallback calls, one value of \<^verbatim>\<open>random()\<close> per call; the prices returned, oldest
  first.\<close>

fun simulated_prices :: "tracker \<Rightarrow> real list \<Rightarrow> tracker \<times> real list" where
  "simulated_prices t [] = (t, [])"
| "simulated_prices t (u # us) =
     (let (t1, p) = get_simulated_price t u;
          (t2, ps) = simulated_prices t1 us
      in (t2, p # ps))"

text \<open>
  \<^verbatim>\<open>get_klines()\<close>, by what it emits and returns. Every path of the method ends in one
  \<^verbatim>\<open>chart_data_ready\<close> for the frame it returns, the real one or the simulated one. Before that
  it reports through \<^verbatim>\<open>monitoring_error\<close>: once when no client is set, and with a client once
  for each failure on the way (too few candles, no MACD, an exception), a number the answer
  gives together with the frame. \<^verbatim>\<open>_get_simulated_klines\<close> is taken to succeed.
\<close>

record klines_answer =
  kl_errors :: nat
  kl_frame :: "row list"

definition get_klines :: "tracker \<Rightarrow> klines_answer \<Rightarrow> event list \<times> row list" where
  "get_klines t ans =
     ((if client t then replicate (kl_errors ans) MonitoringError else [MonitoringError]) @
        [ChartDataReady (kl_frame ans)],
      kl_frame ans)"

text \<open>
  The chart refresh after a trade or a stop:
  \<^verbatim>\<open>df = self.get_klines()\<close>, then \<^verbatim>\<open>chart_data_ready.emit(df)\<close> unless the frame is empty.
\<close>

definition refresh_chart :: "tracker \<Rightarrow> klines_answer \<Rightarrow> event list" where
  "refresh_chart t ans =
     (let (evs, df) = get_klines t ans
      in evs @ (if df \<noteq> [] then [ChartDataReady df] else []))"

section \<open>Position bookkeeping\<close>

text \<open>
  \<^verbatim>\<open>execute_trade(signal, price)\<close>. \<^verbatim>\<open>if not price: return\<close> leaves on \<^verbatim>\<open>None\<close> and on 0.
  The profit of a SELL is only printed; its division is guarded by \<^verbatim>\<open>if self.entry_price\<close>.
  \<^term>\<open>kl\<close> is the answer to the method's \<^verbatim>\<open>get_klines\<close> call.
\<close>

definition execute_trade ::
    "tracker \<Rightarrow> klines_answer \<Rightarrow> string option \<Rightarrow> real option \<Rightarrow> tracker \<times> event list" where
  "execute_trade t kl signal price =
     (if \<not> truthy_num price then (t, [])
      else if signal = Some ''BUY'' \<and> position t = None then
        (t\<lparr>entry_price := price, position := Some ''LONG''\<rparr>,
         TradeSignal ''BUY'' (the price) # refresh_chart t kl)
      else if signal = Some ''SELL'' \<and> position t = Some ''LONG'' then
        (t\<lparr>position := None, entry_price := None\<rparr>,
         TradeSignal ''SELL'' (the price) # refresh_chart t kl)
      else (t, []))"

text \<open>
  \<^verbatim>\<open>check_stop_conditions(current_price)\<close>. \<^verbatim>\<open>isinstance(current_price, (int, float))\<close> is
  \<^term>\<open>current_price \<noteq> None\<close>. Each operation is rounded as the source performs it.
  \<^verbatim>\<open>profit_percent\<close> is computed before either comparison, so an entry price of 0 raises
  \<^verbatim>\<open>ZeroDivisionError\<close> before anything is emitted or written. \<^term>\<open>kl\<close> is the answer to the
  \<^verbatim>\<open>get_klines\<close> call of a fired check.
\<close>

definition stop_loss_level :: "config \<Rightarrow> real \<Rightarrow> real" where
  "stop_loss_level cfg entry = fl (entry * fl (1 - fl (stop_loss_percent cfg / 100)))"

definition take_profit_level :: "config \<Rightarrow> real \<Rightarrow> real" where
  "take_profit_level cfg entry = fl (entry * fl (1 + fl (take_profit_percent cfg / 100)))"

definition profit_percent :: "real \<Rightarrow> real \<Rightarrow> real" where
  "profit_percent entry price = fl (fl (fl (price - entry) / entry) * 100)"

definition check_stop_conditions ::
    "config \<Rightarrow> tracker \<Rightarrow> klines_answer \<Rightarrow> real option
       \<Rightarrow> error + (tracker \<times> event list \<times> bool)" where
  "check_stop_conditions cfg t kl current_price =
     (if position t = Some ''LONG'' \<and> entry_price t \<noteq> None \<and> current_price \<noteq> None then
        (let entry = the (entry_price t);
             price = the current_price;
             stop_loss_price = stop_loss_level cfg entry;
             take_profit_price = take_profit_level cfg entry
         in if entry = 0 then Inl ZeroDivisionError
            else
              (if price \<le> stop_loss_price then
                 Inr (t\<lparr>position := None, entry_price := None\<rparr>,
                      StopConditionTriggered ''STOP_LOSS'' price (profit_percent entry price) #
                        refresh_chart t kl, True)
               else if price \<ge> take_profit_price then
                 Inr (t\<lparr>position := None, entry_price := None\<rparr>,
                      StopConditionTriggered ''TAKE_PROFIT'' price (profit_percent entry price) #
                        refresh_chart t kl, True)
               else Inr (t, [], False)))
      else Inr (t, [], False))"

section \<open>Account balance\<close>

text \<open>
  \<^verbatim>\<open>check_account_balance()\<close>. The answer of \<^verbatim>\<open>get_asset_balance\<close> is \<^term>\<open>ApiFailure\<close> when the
  request or \<^verbatim>\<open>float(balance_info['free'])\<close> raises, \<^term>\<open>NoBalance\<close> when it is empty or has
  no \<^verbatim>\<open>'free'\<close> key, and \<^term>\<open>Free b\<close> otherwise. A balance above 0.1 sets the position to
  \<^verbatim>\<open>'LONG'\<close> and, as the source comments, leaves \<^verbatim>\<open>entry_price\<close> as it is.
\<close>

datatype balance_reply = ApiFailure | NoBalance | Free real

definition check_account_balance ::
    "tracker \<Rightarrow> balance_reply \<Rightarrow> real option \<Rightarrow> real \<Rightarrow> tracker \<times> event list \<times> (real \<times> real)" where
  "check_account_balance t reply ticker u =
     (if \<not> client t then (t, [MonitoringError], (0, 0))
      else case reply of
        ApiFailure \<Rightarrow> (t, [MonitoringError], (0, 0))
      | NoBalance \<Rightarrow> (t, [], (account_balance t, account_value t))
      | Free b \<Rightarrow>
          (let t1 = t\<lparr>account_balance := b\<rparr>;
               (t2, evs, price) = get_latest_price t1 ticker u;
               t3 = (if price \<noteq> 0 then t2\<lparr>account_value := fl (b * price)\<rparr> else t2);
               t4 = (if b > fl 0.1 then t3\<lparr>position := Some ''LONG''\<rparr> else t3)
           in (t4, evs @ [AccountBalanceUpdated b (account_value t3)],
               (account_balance t4, account_value t4))))"

section \<open>Runs of the position operations\<close>

text \<open>
  The three methods that write \<^verbatim>\<open>position\<close> or \<^verbatim>\<open>entry_price\<close>, as operations with their
  arguments and the answers of the exchange. A run applies them in order from a start state
  and collects the events; an exception ends it.
\<close>

datatype op =
    ExecuteTrade klines_answer "string option" "real option"
  | CheckStopConditions klines_answer "real option"
  | CheckAccountBalance balance_reply "real option" real

fun is_balance :: "op \<Rightarrow> bool" where
  "is_balance (CheckAccountBalance r k c) = True"
| "is_balance _ = False"

fun step :: "config \<Rightarrow> tracker \<Rightarrow> op \<Rightarrow> error + (tracker \<times> event list)" where
  "step cfg t (ExecuteTrade kl signal price) = Inr (execute_trade t kl signal price)"
| "step cfg t (CheckStopConditions kl price) =
     (case check_stop_conditions cfg t kl price of
        Inl e \<Rightarrow> Inl e
      | Inr (t', evs, fired) \<Rightarrow> Inr (t', evs))"
| "step cfg t (CheckAccountBalance reply ticker u) =
     (let (t', evs, r) = check_account_balance t reply ticker u in Inr (t', evs))"

fun run :: "config \<Rightarrow> tracker \<Rightarrow> op list \<Rightarrow> error + (tracker \<times> event list)" where
  "run cfg t [] = Inr (t, [])"
| "run cfg t (x # xs) =
     (case step cfg t x of
        Inl e \<Rightarrow> Inl e
      | Inr (t1, evs1) \<Rightarrow>
          (case run cfg t1 xs of
             Inl e \<Rightarrow> Inl e
           | Inr (t2, evs2) \<Rightarrow> Inr (t2, evs1 @ evs2)))"

text \<open>What \<^verbatim>\<open>__init__\<close> establishes about the position: flat, no entry price.\<close>

definition flat :: "tracker \<Rightarrow> bool" where
  "flat t = (position t = None \<and> entry_price t = None)"

text \<open>
  Reading an event trace as position changes: a BUY trade opens, a SELL trade, a stop-loss and
  a take-profit close. \<^term>\<open>position_trace b evs\<close> follows the trace from ``open = b'' and
  gives the final value, or \<^term>\<open>None\<close> if some event opens while open or closes while flat.
\<close>

fun opens :: "event \<Rightarrow> bool" where
  "opens (TradeSignal s p) = (s = ''BUY'')"
| "opens _ = False"

fun closes :: "event \<Rightarrow> bool" where
  "closes (TradeSignal s p) = (s = ''SELL'')"
| "closes (StopConditionTriggered s p q) = True"
| "closes _ = False"

fun position_trace :: "bool \<Rightarrow> event list \<Rightarrow> bool option" where
  "position_trace b [] = Some b"
| "position_trace b (e # es) =
     (if opens e then (if b then None else position_trace True es)
      else if closes e then (if b then position_trace False es else None)
      else position_trace b es)"

section \<open>Signal engine\<close>

definition required_indicators :: "row \<Rightarrow> row \<Rightarrow> real option list" where
  "required_indicators latest prev =
     [close latest, ma5 latest, ma25 latest, rsi latest, macd latest, macd_signal latest,
      ma5 prev, ma25 prev, macd prev, macd_signal prev]"

definition buy_signal_tech :: "row \<Rightarrow> row \<Rightarrow> bool" where
  "buy_signal_tech latest prev =
     ((the (ma5 prev) \<le> the (ma25 prev) \<and> the (ma5 latest) > the (ma25 latest)) \<and>
      the (rsi latest) < 50 \<and>
      (the (macd prev) \<le> the (macd_signal prev) \<and> the (macd latest) > the (macd_signal latest)))"

definition sell_signal_tech :: "row \<Rightarrow> row \<Rightarrow> bool" where
  "sell_signal_tech latest prev =
     ((the (ma5 prev) \<ge> the (ma25 prev) \<and> the (ma5 latest) < the (ma25 latest)) \<and>
      the (rsi latest) > 50 \<and>
      (the (macd prev) \<ge> the (macd_signal prev) \<and> the (macd latest) < the (macd_signal latest)))"

definition sentiment_factor :: "config \<Rightarrow> tracker \<Rightarrow> real" where
  "sentiment_factor cfg t =
     (let enabled = (case sentiment_influence_enabled cfg of None \<Rightarrow> True | Some b \<Rightarrow> b);
          weight = (case sentiment_influence_weight cfg of None \<Rightarrow> 0.5 | Some w \<Rightarrow> w)
      in if enabled \<and> current_sentiment t \<noteq> None then fl (sentiment_score t * weight) else 0)"

definition buy_score :: "config \<Rightarrow> tracker \<Rightarrow> row \<Rightarrow> row \<Rightarrow> real" where
  "buy_score cfg t latest prev =
     fl ((if buy_signal_tech latest prev then 1 else 0) + sentiment_factor cfg t)"

definition sell_score :: "config \<Rightarrow> tracker \<Rightarrow> row \<Rightarrow> row \<Rightarrow> real" where
  "sell_score cfg t latest prev =
     fl ((if sell_signal_tech latest prev then - 1 else 0) - sentiment_factor cfg t)"

text \<open>\<^verbatim>\<open>total_factors\<close>, an \<^verbatim>\<open>int\<close>: the truthiness of \<^verbatim>\<open>self.current_sentiment\<close> decides the
  second factor.\<close>

definition total_factors :: "tracker \<Rightarrow> int" where
  "total_factors t = 1 + (if truthy_str (current_sentiment t) then 1 else 0)"

text \<open>
  \<^verbatim>\<open>abs(total_score) / (total_factors * 2) * 100\<close>: a double divided by an \<^verbatim>\<open>int\<close>, then multiplied,
  each rounded.
\<close>

definition confidence_of :: "tracker \<Rightarrow> real \<Rightarrow> int" where
  "confidence_of t total_score =
     py_int (min 100 (fl (fl (\<bar>total_score\<bar> / of_int (total_factors t * 2)) * 100)))"

definition confidence :: "config \<Rightarrow> tracker \<Rightarrow> row \<Rightarrow> row \<Rightarrow> int" where
  "confidence cfg t latest prev =
     (if buy_signal_tech latest prev \<or> sell_signal_tech latest prev then
        (let total_score = (if buy_score cfg t latest prev > 0 then buy_score cfg t latest prev
                            else sell_score cfg t latest prev)
         in confidence_of t total_score)
      else 0)"

text \<open>\<^verbatim>\<open>max(20, 100 - int(abs(buy_score - sell_score)*50))\<close>.\<close>

definition neutrality_score :: "real \<Rightarrow> real \<Rightarrow> int" where
  "neutrality_score b s = max 20 (100 - py_int (fl (\<bar>fl (b - s)\<bar> * 50)))"

text \<open>
  \<^verbatim>\<open>check_signals(df)\<close>. The method writes no attribute; the tracker is returned as it came.
  \<^verbatim>\<open>df.iloc[-1]\<close> is the last row and \<^verbatim>\<open>df.iloc[-2]\<close> the one before it; both exist behind
  the length check. The thresholds are the doubles \<^verbatim>\<open>0.6\<close> and \<^verbatim>\<open>-0.6\<close>. Each outcome emits
  \<^verbatim>\<open>signal_status_updated\<close> and then \<^verbatim>\<open>chart_data_ready\<close> for the frame.
  With every read cell a float and every read configuration key present, nothing in the
  \<^verbatim>\<open>try\<close> block raises, so its \<^verbatim>\<open>except\<close> branch has no counterpart here.
\<close>

definition check_signals ::
    "config \<Rightarrow> tracker \<Rightarrow> row list \<Rightarrow> tracker \<times> event list \<times> string option" where
  "check_signals cfg t df =
     (if df = [] \<or> length df < 26 then (t, [], None)
      else
        (let latest = last df;
             prev = last (butlast df)
         in if list_ex (\<lambda>i. i = None) (required_indicators latest prev) then (t, [], None)
            else
              (let price = the (close latest);
                   b = buy_score cfg t latest prev;
                   s = sell_score cfg t latest prev
               in if b \<ge> fl 0.6 then
                    (t, [SignalStatusUpdated ''BUY''
                           (BuyAdvice (stop_loss_level cfg price))
                           (confidence cfg t latest prev),
                         ChartDataReady df], Some ''BUY'')
                  else if s \<le> - fl 0.6 then
                    (t, [SignalStatusUpdated ''SELL''
                           (SellAdvice (take_profit_level cfg price))
                           (confidence cfg t latest prev),
                         ChartDataReady df], Some ''SELL'')
                  else
                    (t, [SignalStatusUpdated ''NEUTRAL'' NeutralAdvice (neutrality_score b s),
                         ChartDataReady df], None))))"

section \<open>News aggregation and sentiment analysis\<close>

text \<open>The fixed texts the two methods return, as code points.\<close>

definition msg_news_disabled :: unicode where
  "msg_news_disabled =
     [0x65B0, 0x95FB, 0x83B7, 0x53D6, 0x529F, 0x80FD, 0x5DF2, 0x7981, 0x7528, 0x3002]"

definition msg_no_news :: unicode where
  "msg_no_news =
     [0x672A, 0x80FD, 0x83B7, 0x53D6, 0x5230, 0x76F8, 0x5173, 0x65B0, 0x95FB, 0x3002]"

definition msg_not_configured :: unicode where
  "msg_not_configured =
     [0x44, 0x65, 0x65, 0x70, 0x53, 0x65, 0x65, 0x6B, 0x20, 0x41, 0x50, 0x49,
      0x672A, 0x914D, 0x7F6E, 0x3002]"

definition msg_nothing_to_analyse :: unicode where
  "msg_nothing_to_analyse =
     [0x65E0, 0x65B0, 0x95FB, 0x5185, 0x5BB9, 0x53EF, 0x4F9B, 0x5206, 0x6790, 0x3002]"

definition msg_summary_empty :: unicode where
  "msg_summary_empty =
     [0x672A, 0x80FD, 0x63D0, 0x53D6, 0x5230, 0x6709, 0x6548, 0x7684, 0x4E2D, 0x6587,
      0x6458, 0x8981, 0x5185, 0x5BB9, 0x3002]"

definition msg_summary_missing :: unicode where
  "msg_summary_missing =
     [0x672A, 0x80FD, 0x627E, 0x5230, 0x4E2D, 0x6587, 0x6458, 0x8981, 0x90E8, 0x5206, 0x3002]"

text \<open>
  What the completion endpoint answers to one request. \<^term>\<open>Failed msg\<close>: the request, the
  status check or the decoding raised, and \<^term>\<open>msg\<close> is the text the matching \<^verbatim>\<open>except\<close> branch
  returns. \<^term>\<open>Content label score summary\<close>: a response text, given by what the three regular
  expressions find in it: the sentiment label in lower case, the score as a float, and the
  summary after \<^verbatim>\<open>strip\<close> and the removal of trailing sections; \<^term>\<open>None\<close> where there is no
  match.
\<close>

datatype api_reply =
    Failed unicode
  | Content "string option" "real option" "unicode option"

text \<open>
  \<^verbatim>\<open>call_deepseek_for_analysis(headlines)\<close>. \<^term>\<open>h\<close> is Python's \<^verbatim>\<open>hash\<close> on tuples of strings,
  \<^term>\<open>now\<close> the value of \<^verbatim>\<open>time.time()\<close>. Only the path that parses a response writes the
  cache.
\<close>

definition call_deepseek_for_analysis ::
    "(unicode list \<Rightarrow> int) \<Rightarrow> config \<Rightarrow> tracker \<Rightarrow> real \<Rightarrow> api_reply \<Rightarrow> unicode list
       \<Rightarrow> tracker \<times> event list \<times> analysis" where
  "call_deepseek_for_analysis h cfg t now reply headlines =
     (let cache_key = h (sort headlines);
          cached = (case news_cache t cache_key of
                      None \<Rightarrow> None
                    | Some (cache_time, cache_data) \<Rightarrow>
                        if now - cache_time < cache_expiry t then Some cache_data else None)
      in case cached of
           Some cache_data \<Rightarrow> (t, [], cache_data)
         | None \<Rightarrow>
             if \<not> truthy_str (deepseek_api_key cfg) then
               (t, [], (msg_not_configured, Some ''neutral'', 0))
             else if headlines = [] then
               (t, [], (msg_nothing_to_analyse, Some ''neutral'', 0))
             else
               (case reply of
                  Failed msg \<Rightarrow>
                    (t, [DeepSeekRequest headlines, MonitoringError], (msg, Some ''neutral'', 0))
                | Content parsed_sentiment score_match summary_match \<Rightarrow>
                    (let parsed_score = (case score_match of
                                           None \<Rightarrow> 0
                                         | Some x \<Rightarrow> max (- 1) (min 1 x));
                         summary_content = (case summary_match of
                                              None \<Rightarrow> msg_summary_missing
                                            | Some c \<Rightarrow> if c = [] then msg_summary_empty else c);
                         sentiment = (case parsed_sentiment of
                                        None \<Rightarrow>
                                          if parsed_score \<noteq> 0 \<and> parsed_score \<ge> 0.3
                                          then ''positive''
                                          else if parsed_score \<noteq> 0 \<and> parsed_score \<le> - 0.3
                                          then ''negative''
                                          else ''neutral''
                                      | Some label \<Rightarrow> label);
                         result = (summary_content, Some sentiment, parsed_score)
                     in (t\<lparr>news_cache := (news_cache t)(cache_key \<mapsto> (now, result))\<rparr>,
                         [DeepSeekRequest headlines], result))))"

text \<open>
  What the news sources answer to one \<^verbatim>\<open>fetch_and_process_news\<close>: per keyword API the
  formatted headlines of the articles that have a title, or \<^term>\<open>None\<close> if the request raised;
  the formatted headlines of the articles \<^verbatim>\<open>fetch_rss_news\<close> returns; the clock and the
  completion endpoint's answer for the analysis. The signals \<^verbatim>\<open>fetch_rss_news\<close> emits itself
  are left out.
\<close>

record news_env =
  gnews_headlines :: "unicode list option"
  newsapi_headlines :: "unicode list option"
  rss_headlines :: "unicode list"
  news_time :: real
  deepseek_reply :: api_reply

definition source_headlines :: "string option \<Rightarrow> unicode list option \<Rightarrow> unicode list \<times> event list" where
  "source_headlines api_key answer =
     (if truthy_str api_key then
        (case answer of Some hs \<Rightarrow> (hs, []) | None \<Rightarrow> ([], [MonitoringError]))
      else ([], []))"

definition all_headlines :: "config \<Rightarrow> news_env \<Rightarrow> unicode list" where
  "all_headlines cfg env =
     fst (source_headlines (gnews_api_key cfg) (gnews_headlines env)) @
     fst (source_headlines (newsapi_api_key cfg) (newsapi_headlines env)) @
     rss_headlines env"

text \<open>\<^verbatim>\<open>list(dict.fromkeys(xs))\<close>: duplicates removed, first occurrences kept in order.\<close>

definition unique_headlines :: "unicode list \<Rightarrow> unicode list" where
  "unique_headlines xs = rev (remdups (rev xs))"

definition fetch_and_process_news ::
    "(unicode list \<Rightarrow> int) \<Rightarrow> config \<Rightarrow> tracker \<Rightarrow> news_env \<Rightarrow> tracker \<times> event list \<times> analysis" where
  "fetch_and_process_news h cfg t env =
     (if \<not> news_enabled cfg then (t, [], (msg_news_disabled, None, 0))
      else
        (let evs = snd (source_headlines (gnews_api_key cfg) (gnews_headlines env)) @
                   snd (source_headlines (newsapi_api_key cfg) (newsapi_headlines env))
         in if all_headlines cfg env = [] then
              (t\<lparr>last_processed_news := Some msg_no_news\<rparr>, evs,
               (msg_no_news, Some ''neutral'', 0))
            else
              (let (t1, evs1, (processed_news, sentiment, score)) =
                     call_deepseek_for_analysis h cfg t (news_time env) (deepseek_reply env)
                       (unique_headlines (all_headlines cfg env))
               in (t1\<lparr>current_sentiment := sentiment, sentiment_score := score,
                       last_processed_news := Some processed_news\<rparr>,
                   evs @ evs1 @ [NewsProcessed processed_news sentiment score],
                   (processed_news, sentiment, score)))))"

fun is_request :: "event \<Rightarrow> bool" where
  "is_request (DeepSeekRequest hs) = True"
| "is_request _ = False"

section \<open>Monitoring loop\<close>

text \<open>
  \<^verbatim>\<open>start_monitoring\<close> resets the session attributes; the threads it starts are not part of
  the model. \<^term>\<open>initial_loop_state\<close> holds the local variables of \<^verbatim>\<open>_monitoring_loop\<close> as set
  before its \<^verbatim>\<open>while\<close>, for a loop entered at time \<^term>\<open>now\<close> (in seconds).
\<close>

definition start_monitoring :: "tracker \<Rightarrow> tracker" where
  "start_monitoring t = t\<lparr>stop_flag := False, price_log := [], previous_price := None\<rparr>"

record loop_state =
  iteration :: int
  last_news_time :: real
  last_kline_time :: real
  session_high :: "real option"
  session_low :: "real option"

definition initial_loop_state :: "real \<Rightarrow> loop_state" where
  "initial_loop_state now =
     \<lparr> iteration = 0, last_news_time = now, last_kline_time = now - 60,
       session_high = None, session_low = None \<rparr>"

text \<open>
  What one iteration reads from outside: the clock, the exchange's ticker answer and the
  value of \<^verbatim>\<open>random()\<close> for the price fallback, and the answers to the \<^verbatim>\<open>get_klines\<close> calls it
  can make: the one of the signal phase, the one inside a fired stop check, the one after a
  closed position, and the one inside \<^verbatim>\<open>execute_trade\<close>.
\<close>

record loop_env =
  env_time :: real
  env_ticker :: "real option"
  env_random :: real
  env_klines :: klines_answer
  env_stop_klines :: klines_answer
  env_closed_klines :: klines_answer
  env_trade_klines :: klines_answer

definition pct_change :: "real option \<Rightarrow> real \<Rightarrow> real" where
  "pct_change previous current_price =
     (case previous of
        None \<Rightarrow> 0
      | Some pp \<Rightarrow> if pp > 0 then fl (fl (fl (current_price - pp) / pp) * 100) else 0)"

definition price_alert :: "config \<Rightarrow> real option \<Rightarrow> real \<Rightarrow> bool" where
  "price_alert cfg previous pct =
     (let threshold = (case price_alert_threshold cfg of None \<Rightarrow> 1 | Some x \<Rightarrow> x)
      in previous \<noteq> None \<and> \<bar>pct\<bar> \<ge> threshold)"

text \<open>
  The end of an iteration that no \<^verbatim>\<open>continue\<close> cut short: the previous price is updated and
  the hourly news refresh is timed (its thread and the balance thread are not modelled).
\<close>

definition finish_iteration ::
    "config \<Rightarrow> real \<Rightarrow> real \<Rightarrow> tracker \<Rightarrow> loop_state \<Rightarrow> tracker \<times> loop_state" where
  "finish_iteration cfg now current_price t l =
     (t\<lparr>previous_price := Some current_price\<rparr>,
      if news_enabled cfg \<and> now - last_news_time l \<ge> 3600 then l\<lparr>last_news_time := now\<rparr> else l)"

text \<open>
  Lines 885 to 924: the throttled candle refresh and the signal check while flat.
  \<^verbatim>\<open>int(60 / refresh_interval_seconds)\<close> raises on an interval of 0.
\<close>

definition signal_phase ::
    "config \<Rightarrow> real \<Rightarrow> loop_env \<Rightarrow> real \<Rightarrow> bool \<Rightarrow> tracker \<Rightarrow> loop_state
       \<Rightarrow> event list \<times> (error + tracker \<times> loop_state)" where
  "signal_phase cfg refresh_interval_seconds env current_price alert t l =
     (if refresh_interval_seconds = 0 then ([], Inl ZeroDivisionError)
      else
        (let now = env_time env;
             kline_check_interval = max 1 (py_int (fl (60 / refresh_interval_seconds)));
             kline_elapsed = now - last_kline_time l;
             should_check_klines =
               (iteration l mod kline_check_interval = 0 \<or> alert \<or> kline_elapsed \<ge> 60)
         in if should_check_klines then
              (let (evs0, df) = get_klines t (env_klines env)
               in if df \<noteq> [] then
                    (let l1 = l\<lparr>last_kline_time := now\<rparr>
                     in if position t = None then
                          (let (t1, evs1, signal) = check_signals cfg t df
                           in if signal = Some ''BUY'' then
                                (let (t2, evs2) = execute_trade t1 (env_trade_klines env) signal
                                                    (Some current_price)
                                 in (evs0 @ [ChartDataReady df] @ evs1 @ evs2,
                                     Inr (t2\<lparr>previous_price := Some current_price\<rparr>, l1)))
                              else (evs0 @ [ChartDataReady df] @ evs1,
                                    Inr (finish_iteration cfg now current_price t1 l1)))
                        else (evs0 @ [ChartDataReady df],
                              Inr (finish_iteration cfg now current_price t l1)))
                  else (evs0, Inr (finish_iteration cfg now current_price t l)))
            else ([], Inr (finish_iteration cfg now current_price t l))))"

text \<open>
  Lines 838 to 870: the price is fetched, the session extremes and the price log are
  updated, and the price-update and price-alert signals are emitted. \<^verbatim>\<open>get_latest_price\<close>
  always returns a float, so the branch for a price of \<^verbatim>\<open>None\<close> does not occur. The result
  also carries the price and whether the alert fired, which the rest of the iteration reads.
\<close>

definition price_phase ::
    "config \<Rightarrow> loop_env \<Rightarrow> tracker \<Rightarrow> loop_state
       \<Rightarrow> tracker \<times> loop_state \<times> event list \<times> real \<times> bool" where
  "price_phase cfg env t l =
     (let now = env_time env;
          l1 = l\<lparr>iteration := iteration l + 1\<rparr>;
          (t1, evs0, current_price) = get_latest_price t (env_ticker env) (env_random env);
          l2 = l1\<lparr>session_high :=
                     (case session_high l1 of
                        None \<Rightarrow> Some current_price
                      | Some hi \<Rightarrow> if current_price > hi then Some current_price else Some hi),
                   session_low :=
                     (case session_low l1 of
                        None \<Rightarrow> Some current_price
                      | Some lo \<Rightarrow> if current_price < lo then Some current_price else Some lo)\<rparr>;
          t2 = t1\<lparr>price_log := price_log t1 @ [(now, current_price)]\<rparr>;
          pct = pct_change (previous_price t2) current_price;
          alert = price_alert cfg (previous_price t2) pct
      in (t2, l2,
          evs0 @ [PriceUpdated current_price pct] @
            (if alert then [AlertTriggered ''PRICE_CHANGE'' pct] else []),
          current_price, alert))"

text \<open>
  Lines 872 to 924: the stop check while long, whose firing refreshes the chart and ends the
  iteration with the previous price updated, and otherwise the signal phase. An exception
  leaves the loop through its outer \<^verbatim>\<open>except\<close>.
\<close>

definition stop_phase ::
    "config \<Rightarrow> real \<Rightarrow> loop_env \<Rightarrow> real \<Rightarrow> bool \<Rightarrow> tracker \<Rightarrow> loop_state
       \<Rightarrow> event list \<times> (error + tracker \<times> loop_state)" where
  "stop_phase cfg refresh_interval_seconds env current_price alert t l =
     (case (if position t = Some ''LONG''
            then check_stop_conditions cfg t (env_stop_klines env) (Some current_price)
            else Inr (t, [], False)) of
        Inl e \<Rightarrow> ([], Inl e)
      | Inr (t1, evs1, position_closed) \<Rightarrow>
          if position_closed then
            (evs1 @ refresh_chart t1 (env_closed_klines env),
             Inr (t1\<lparr>previous_price := Some current_price\<rparr>, l))
          else
            (let (evs2, r) = signal_phase cfg refresh_interval_seconds env current_price alert t1 l
             in (evs1 @ evs2, r)))"

text \<open>
  One pass through the body of the \<^verbatim>\<open>while\<close> loop of \<^verbatim>\<open>_monitoring_loop\<close>, without the final
  sleep: the events it emits, and the tracker and loop variables it leaves or the exception
  it raises.
\<close>

definition loop_iteration ::
    "config \<Rightarrow> real \<Rightarrow> loop_env \<Rightarrow> tracker \<Rightarrow> loop_state
       \<Rightarrow> event list \<times> (error + tracker \<times> loop_state)" where
  "loop_iteration cfg refresh_interval_seconds env t l =
     (let (t1, l1, evs1, current_price, alert) = price_phase cfg env t l;
          (evs2, r) = stop_phase cfg refresh_interval_seconds env current_price alert t1 l1
      in (evs1 @ evs2, r))"

fun price_or_alert :: "event \<Rightarrow> bool" where
  "price_or_alert (PriceUpdated p c) = True"
| "price_or_alert (AlertTriggered k c) = True"
| "price_or_alert _ = False"

text \<open>
  Synthetic candle rows for the examples: between \<^term>\<open>crossover_prev\<close> and
  \<^term>\<open>crossover_latest\<close> the short average crosses above the long one and the MACD line above
  its signal, with RSI at 45; \<^term>\<open>crossunder_latest\<close> mirrors it downwards from
  \<^term>\<open>crossunder_prev\<close> with RSI at 55; between \<^term>\<open>crossover_prev\<close> and \<^term>\<open>quiet_latest\<close>
  nothing crosses. A frame is 24 older rows followed by the pair.
\<close>

definition crossover_prev :: row where
  "crossover_prev = \<lparr> close = Some 1, ma5 = Some 1, ma25 = Some 2, rsi = Some 45,
                       macd = Some (- 1), macd_signal = Some 0 \<rparr>"

definition crossover_latest :: row where
  "crossover_latest = \<lparr> close = Some 2, ma5 = Some 3, ma25 = Some 2, rsi = Some 45,
                         macd = Some 1, macd_signal = Some 0 \<rparr>"

definition crossunder_prev :: row where
  "crossunder_prev = \<lparr> close = Some 2, ma5 = Some 3, ma25 = Some 2, rsi = Some 55,
                        macd = Some 1, macd_signal = Some 0 \<rparr>"

definition crossunder_latest :: row where
  "crossunder_latest = \<lparr> close = Some 1, ma5 = Some 1, ma25 = Some 2, rsi = Some 55,
                          macd = Some (- 1), macd_signal = Some 0 \<rparr>"

definition quiet_latest :: row where
  "quiet_latest = \<lparr> close = Some 1, ma5 = Some 1, ma25 = Some 2, rsi = Some 45,
                     macd = Some (- 1), macd_signal = Some 0 \<rparr>"

definition frame :: "row \<Rightarrow> row \<Rightarrow> row list" where
  "frame prev latest = replicate 24 prev @ [prev, latest]"

text \<open>
  An answer of \<^verbatim>\<open>get_klines\<close> for the examples: a frame of one row, fetched without a
  failure.
\<close>

definition one_candle :: klines_answer where
  "one_candle = \<lparr> kl_errors = 0, kl_frame = [quiet_latest] \<rparr>"

text \<open>
  Two invariants of the position fields. \<^term>\<open>entry_implies_long\<close>: a recorded entry price
  is never 0 and is only there while the position is long. \<^term>\<open>entry_iff_long\<close>: moreover a
  long position always has its entry price, and the position is \<^verbatim>\<open>None\<close> or \<^verbatim>\<open>'LONG'\<close>.
\<close>

definition entry_implies_long :: "tracker \<Rightarrow> bool" where
  "entry_implies_long t =
     (entry_price t \<noteq> Some 0 \<and> (entry_price t \<noteq> None \<longrightarrow> position t = Some ''LONG''))"

definition entry_iff_long :: "tracker \<Rightarrow> bool" where
  "entry_iff_long t =
     (entry_price t \<noteq> Some 0 \<and>
      (entry_price t \<noteq> None \<longleftrightarrow> position t = Some ''LONG'') \<and>
      (position t = None \<or> position t = Some ''LONG''))"

section \<open>Rounding\<close>

text \<open>Unfolding these evaluates \<^term>\<open>fl\<close> at a numeral.\<close>

lemmas fl_eval = fl_def ilog2_def pow2_def round_half_even_def Let_def compute_bitlen

lemma pow2_powr: "pow2 k = 2 powr (real_of_int k)"
  by (simp add: pow2_def powr_int)

lemma pow2_pos: "pow2 k > 0"
  by (simp add: pow2_powr)

lemma pow2_shift: "pow2 (k - 52) = pow2 k / 2 ^ 52"
proof -
  have "pow2 (k - 52) = 2 powr (real_of_int k - 52)" by (simp add: pow2_powr)
  also have "\<dots> = 2 powr (real_of_int k) / 2 powr 52" by (rule powr_diff)
  also have "(2::real) powr 52 = 2 ^ 52" by (simp add: powr_numeral)
  finally show ?thesis by (simp add: pow2_powr)
qed

lemma ilog2_lower:
  assumes "x > 0"
  shows "pow2 (ilog2 x) \<le> x"
proof (cases "x \<ge> 1")
  case True
  define n where "n = \<lfloor>x\<rfloor>"
  from True have n: "n > 0" by (simp add: n_def)
  then have b: "bitlen n - 1 \<ge> 0" by (auto simp: bitlen_alt_def)
  from bitlen_bounds [OF n] have "2 ^ nat (bitlen n - 1) \<le> n" ..
  then have "real_of_int (2 ^ nat (bitlen n - 1)) \<le> real_of_int n" by (simp only: of_int_le_iff)
  also have "real_of_int n \<le> x" by (simp add: n_def)
  finally have "(2::real) ^ nat (bitlen n - 1) \<le> x" by simp
  with True b show ?thesis by (simp add: ilog2_def pow2_def n_def)
next
  case False
  define y where "y = 1 / x"
  define m where "m = \<lceil>y\<rceil>"
  from False assms have y: "y > 1" by (simp add: y_def)
  then have m: "m - 1 > 0" by (simp add: m_def)
  define c where "c = bitlen (m - 1)"
  from m have c: "c \<ge> 1" by (auto simp: c_def bitlen_alt_def)
  from bitlen_bounds [OF m] have "m - 1 < 2 ^ nat c" by (simp add: c_def)
  then have "m \<le> 2 ^ nat c" by simp
  then have "real_of_int m \<le> real_of_int (2 ^ nat c)" by (simp only: of_int_le_iff)
  moreover have "y \<le> real_of_int m" by (simp add: m_def)
  ultimately have "y \<le> real_of_int (2 ^ nat c)" by linarith
  then have "y \<le> 2 ^ nat c" by simp
  with y have "1 / (2::real) ^ nat c \<le> 1 / y"
    by (intro divide_left_mono) auto
  then have "1 / (2::real) ^ nat c \<le> x" by (simp add: y_def)
  moreover from False c have "ilog2 x = - c" by (simp add: ilog2_def c_def m_def y_def)
  ultimately show ?thesis using c by (simp add: pow2_def)
qed

lemma round_half_even_error: "\<bar>real_of_int (round_half_even y) - y\<bar> \<le> 1 / 2"
proof -
  define n where "n = \<lfloor>y\<rfloor>"
  define r where "r = y - real_of_int n"
  have r0: "0 \<le> r" and r1: "r < 1" by (simp_all add: r_def n_def) linarith
  have y: "y = real_of_int n + r" by (simp add: r_def)
  have d: "round_half_even y =
             (if r < 1 / 2 then n else if r > 1 / 2 then n + 1 else if even n then n else n + 1)"
    by (simp add: round_half_even_def Let_def n_def r_def)
  consider "r < 1 / 2" | "r > 1 / 2" | "r = 1 / 2" by linarith
  then show ?thesis
  proof cases
    case 1
    with d have "round_half_even y = n" by simp
    with y r0 1 show ?thesis by simp
  next
    case 2
    with d have "round_half_even y = n + 1" by simp
    with y r1 2 show ?thesis by simp
  next
    case 3
    with d have "round_half_even y = n \<or> round_half_even y = n + 1" by simp
    with y 3 show ?thesis by auto
  qed
qed

lemma fl_error: "\<bar>fl x - x\<bar> \<le> \<bar>x\<bar> / 2 ^ 53"
proof (cases "x = 0")
  case True
  then show ?thesis by (simp add: fl_def)
next
  case False
  define k where "k = ilog2 \<bar>x\<bar>"
  define P where "P = pow2 (k - 52)"
  define y where "y = x / P"
  have P: "P > 0" by (simp add: P_def pow2_pos)
  from False have f: "fl x = real_of_int (round_half_even y) * P"
    by (simp add: fl_def Let_def k_def P_def y_def)
  from P have "x = y * P" by (simp add: y_def)
  with f have "fl x - x = (real_of_int (round_half_even y) - y) * P"
    by (simp add: algebra_simps)
  then have "\<bar>fl x - x\<bar> = \<bar>real_of_int (round_half_even y) - y\<bar> * P"
    using P by (simp add: abs_mult)
  also have "\<dots> \<le> (1 / 2) * P"
    using round_half_even_error [of y] P by (intro mult_right_mono) auto
  also have "\<dots> = pow2 k / 2 ^ 53" by (simp add: P_def pow2_shift)
  also have "\<dots> \<le> \<bar>x\<bar> / 2 ^ 53"
    using ilog2_lower [of "\<bar>x\<bar>"] False by (simp add: k_def divide_right_mono)
  finally show ?thesis .
qed

lemma fl_values: "fl 0 = 0" "fl 1 = 1" "fl (- 1) = - 1"
  by (simp_all add: fl_eval)

lemma fl_six_tenths: "0 < fl 0.6" "fl 0.6 \<le> 1"
  by (simp_all add: fl_eval)

section \<open>Events of the chart refresh\<close>

lemma refresh_chart_neutral:
  assumes "e \<in> set (refresh_chart t kl)"
  shows "\<not> opens e \<and> \<not> closes e \<and> \<not> price_or_alert e"
  using assms by (auto simp: refresh_chart_def get_klines_def split: if_splits)

lemma position_trace_neutral:
  "\<forall>e \<in> set evs. \<not> opens e \<and> \<not> closes e \<Longrightarrow> position_trace b evs = Some b"
  by (induction evs) auto

lemma position_trace_refresh: "position_trace b (refresh_chart t kl) = Some b"
  by (rule position_trace_neutral) (simp add: refresh_chart_neutral)

section \<open>Position exclusivity\<close>

lemma position_trace_append:
  "position_trace b (xs @ ys) =
     (case position_trace b xs of None \<Rightarrow> None | Some b' \<Rightarrow> position_trace b' ys)"
  by (induction xs arbitrary: b) auto

lemma flat_entry_iff_long: "flat t \<Longrightarrow> entry_iff_long t"
  by (simp add: flat_def entry_iff_long_def)

lemma entry_iff_long_implies: "entry_iff_long t \<Longrightarrow> entry_implies_long t"
  by (auto simp: entry_iff_long_def entry_implies_long_def)

text \<open>One operation other than the balance check keeps the position and its entry price in
  step, never raises, and emits only events that fit the position it started from.\<close>

lemma step_entry_iff_long:
  assumes "entry_iff_long t" and "\<not> is_balance x"
  shows "\<exists>t1 evs. step cfg t x = Inr (t1, evs) \<and> entry_iff_long t1 \<and>
           position_trace (position t = Some ''LONG'') evs = Some (position t1 = Some ''LONG'')"
  using assms
  by (cases x)
     (auto simp: entry_iff_long_def execute_trade_def check_stop_conditions_def Let_def
        truthy_num_def position_trace_refresh split: option.splits if_splits)

lemma run_entry_iff_long:
  assumes "entry_iff_long t" and "\<forall>x \<in> set ops. \<not> is_balance x"
  shows "\<exists>t' evs. run cfg t ops = Inr (t', evs) \<and> entry_iff_long t' \<and>
           position_trace (position t = Some ''LONG'') evs = Some (position t' = Some ''LONG'')"
  using assms
proof (induction ops arbitrary: t)
  case Nil
  then show ?case by simp
next
  case (Cons x xs)
  from Cons.prems obtain t1 evs1 where
    s: "step cfg t x = Inr (t1, evs1)" and i1: "entry_iff_long t1" and
    p1: "position_trace (position t = Some ''LONG'') evs1 = Some (position t1 = Some ''LONG'')"
    using step_entry_iff_long [of t x cfg] by auto
  from Cons.IH [OF i1] Cons.prems obtain t2 evs2 where
    r: "run cfg t1 xs = Inr (t2, evs2)" and i2: "entry_iff_long t2" and
    p2: "position_trace (position t1 = Some ''LONG'') evs2 = Some (position t2 = Some ''LONG'')"
    by auto
  from s r have "run cfg t (x # xs) = Inr (t2, evs1 @ evs2)" by simp
  moreover from p1 p2
  have "position_trace (position t = Some ''LONG'') (evs1 @ evs2) = Some (position t2 = Some ''LONG'')"
    by (simp add: position_trace_append)
  ultimately show ?case using i2 by blast
qed

text \<open>Whatever the state, an operation emits an opening event only from \<^verbatim>\<open>position = None\<close>
  and a closing event only from \<^verbatim>\<open>position = 'LONG'\<close>.\<close>

lemma step_events_guarded:
  assumes "step cfg t x = Inr (t', evs)" and "e \<in> set evs"
  shows "(opens e \<longrightarrow> position t = None \<and> position t' = Some ''LONG'') \<and>
         (closes e \<longrightarrow> position t = Some ''LONG'' \<and> position t' = None)"
proof (cases x)
  case (ExecuteTrade kl signal price)
  with assms show ?thesis
    by (auto simp: execute_trade_def split: if_splits dest: refresh_chart_neutral)
next
  case (CheckStopConditions kl price)
  with assms show ?thesis
    by (auto simp: check_stop_conditions_def Let_def split: if_splits dest: refresh_chart_neutral)
next
  case (CheckAccountBalance reply ticker u)
  with assms show ?thesis
    by (auto simp: check_account_balance_def get_latest_price_def get_simulated_price_def Let_def
          split: if_splits balance_reply.splits option.splits prod.splits)
qed

text \<open>
  C2: every sequence of \<^verbatim>\<open>execute_trade\<close> and \<^verbatim>\<open>check_stop_conditions\<close> calls from the initial
  flat state runs to its end, and its events read as position changes are consistent: a BUY
  is emitted only while flat, a SELL, stop-loss or take-profit only while a BUY has opened a
  position that no later event closed, and the position field after the run is long exactly
  when the trace ends open. Any further operation emits an opening event only from
  \<^verbatim>\<open>position = None\<close> and a closing event only from \<^verbatim>\<open>position = 'LONG'\<close>.
\<close>

theorem position_exclusivity:
  assumes "flat t0" and "\<forall>x \<in> set ops. \<not> is_balance x"
  shows "\<exists>t evs. run cfg t0 ops = Inr (t, evs) \<and>
           position_trace False evs = Some (position t = Some ''LONG'') \<and>
           (position t = None \<or> position t = Some ''LONG'') \<and>
           (\<forall>x t' evs' e. step cfg t x = Inr (t', evs') \<and> e \<in> set evs' \<longrightarrow>
              (opens e \<longrightarrow> position t = None \<and> position t' = Some ''LONG'') \<and>
              (closes e \<longrightarrow> position t = Some ''LONG'' \<and> position t' = None))"
proof -
  from assms obtain t evs where
    r: "run cfg t0 ops = Inr (t, evs)" and i: "entry_iff_long t" and
    p: "position_trace (position t0 = Some ''LONG'') evs = Some (position t = Some ''LONG'')"
    using run_entry_iff_long [OF flat_entry_iff_long, of t0 ops cfg] by auto
  from assms(1) have "position t0 \<noteq> Some ''LONG''" by (simp add: flat_def)
  with p have "position_trace False evs = Some (position t = Some ''LONG'')" by simp
  moreover from i have "position t = None \<or> position t = Some ''LONG''"
    by (simp add: entry_iff_long_def)
  ultimately show ?thesis using r step_events_guarded by blast
qed

text \<open>A run that buys, is stopped out, ignores a SELL while flat, buys again and sells.\<close>

theorem position_exclusivity_witness:
  "flat init \<and>
   run default_config init
     [ExecuteTrade one_candle (Some ''BUY'') (Some 100),
      ExecuteTrade one_candle (Some ''BUY'') (Some 101),
      CheckStopConditions one_candle (Some 94),
      ExecuteTrade one_candle (Some ''SELL'') (Some 90),
      ExecuteTrade one_candle (Some ''BUY'') (Some 50),
      ExecuteTrade one_candle (Some ''SELL'') (Some 60)] =
     Inr (init,
          TradeSignal ''BUY'' 100 # refresh_chart init one_candle @
          StopConditionTriggered ''STOP_LOSS'' 94 (- 6) # refresh_chart init one_candle @
          TradeSignal ''BUY'' 50 # refresh_chart init one_candle @
          TradeSignal ''SELL'' 60 # refresh_chart init one_candle) \<and>
   position_trace False
     (TradeSignal ''BUY'' 100 # refresh_chart init one_candle @
      StopConditionTriggered ''STOP_LOSS'' 94 (- 6) # refresh_chart init one_candle @
      TradeSignal ''BUY'' 50 # refresh_chart init one_candle @
      TradeSignal ''SELL'' 60 # refresh_chart init one_candle) = Some False \<and>
   refresh_chart init one_candle =
     [MonitoringError, ChartDataReady [quiet_latest], ChartDataReady [quiet_latest]]"
proof -
  let ?ops = "[ExecuteTrade one_candle (Some ''BUY'') (Some 100),
      ExecuteTrade one_candle (Some ''BUY'') (Some 101),
      CheckStopConditions one_candle (Some 94),
      ExecuteTrade one_candle (Some ''SELL'') (Some 90),
      ExecuteTrade one_candle (Some ''BUY'') (Some 50),
      ExecuteTrade one_candle (Some ''SELL'') (Some 60)]"
  have f: "flat init" by (simp add: flat_def init_def)
  have n: "\<forall>x \<in> set ?ops. \<not> is_balance x" by simp
  have c: "refresh_chart init one_candle =
     [MonitoringError, ChartDataReady [quiet_latest], ChartDataReady [quiet_latest]]"
    by (simp add: refresh_chart_def get_klines_def one_candle_def init_def)
  have l: "stop_loss_level default_config 100 = 95" "profit_percent 100 94 = - 6"
    by (simp_all add: stop_loss_level_def profit_percent_def default_config_def fl_eval)
  have r: "run default_config init ?ops =
     Inr (init,
          TradeSignal ''BUY'' 100 # refresh_chart init one_candle @
          StopConditionTriggered ''STOP_LOSS'' 94 (- 6) # refresh_chart init one_candle @
          TradeSignal ''BUY'' 50 # refresh_chart init one_candle @
          TradeSignal ''SELL'' 60 # refresh_chart init one_candle)"
    by (simp add: execute_trade_def check_stop_conditions_def truthy_num_def l Let_def
          refresh_chart_def get_klines_def init_def)
  from position_exclusivity [OF f n, of default_config] r
  have "position_trace False
     (TradeSignal ''BUY'' 100 # refresh_chart init one_candle @
      StopConditionTriggered ''STOP_LOSS'' 94 (- 6) # refresh_chart init one_candle @
      TradeSignal ''BUY'' 50 # refresh_chart init one_candle @
      TradeSignal ''SELL'' 60 # refresh_chart init one_candle) = Some False"
    by (simp add: init_def)
  with f r c show ?thesis by simp
qed

section \<open>Entry price and position\<close>

lemma step_entry_implies_long:
  assumes "entry_implies_long t"
  shows "\<exists>t1 evs. step cfg t x = Inr (t1, evs) \<and> entry_implies_long t1"
proof (cases x)
  case (ExecuteTrade kl signal price)
  with assms show ?thesis
    by (auto simp: entry_implies_long_def execute_trade_def truthy_num_def split: option.splits)
next
  case (CheckStopConditions kl price)
  with assms show ?thesis
    by (cases "entry_price t")
       (auto simp: entry_implies_long_def check_stop_conditions_def Let_def)
next
  case (CheckAccountBalance reply ticker u)
  with assms show ?thesis
    by (auto simp: entry_implies_long_def check_account_balance_def get_latest_price_def
          get_simulated_price_def Let_def split: balance_reply.splits option.splits prod.splits)
qed

lemma run_entry_implies_long:
  assumes "entry_implies_long t"
  shows "\<exists>t' evs. run cfg t ops = Inr (t', evs) \<and> entry_implies_long t'"
  using assms
proof (induction ops arbitrary: t)
  case Nil
  then show ?case by simp
next
  case (Cons x xs)
  from step_entry_implies_long [OF Cons.prems] obtain t1 evs1 where
    s: "step cfg t x = Inr (t1, evs1)" and i1: "entry_implies_long t1" by blast
  from Cons.IH [OF i1] obtain t2 evs2 where
    r: "run cfg t1 xs = Inr (t2, evs2)" and i2: "entry_implies_long t2" by blast
  from s r have "run cfg t (x # xs) = Inr (t2, evs1 @ evs2)" by simp
  with i2 show ?case by blast
qed

text \<open>
  C5 (as amended): every sequence of \<^verbatim>\<open>execute_trade\<close>, \<^verbatim>\<open>check_stop_conditions\<close> and
  \<^verbatim>\<open>check_account_balance\<close> calls from the initial flat state runs to its end, and in the
  state it reaches a defined entry price implies position long, so an operation that clears
  the position has cleared the entry price; when no \<^verbatim>\<open>check_account_balance\<close> is among the
  calls, position long also implies a defined entry price.
\<close>

theorem entry_price_defined_implies_long:
  assumes "flat t0"
  shows "\<exists>t evs. run cfg t0 ops = Inr (t, evs) \<and>
           (entry_price t \<noteq> None \<longrightarrow> position t = Some ''LONG'') \<and>
           ((\<forall>x \<in> set ops. \<not> is_balance x) \<longrightarrow>
              (position t = Some ''LONG'' \<longrightarrow> entry_price t \<noteq> None))"
proof (cases "\<forall>x \<in> set ops. \<not> is_balance x")
  case True
  with assms obtain t evs where "run cfg t0 ops = Inr (t, evs)" and "entry_iff_long t"
    using run_entry_iff_long [OF flat_entry_iff_long, of t0 ops cfg] by auto
  then show ?thesis by (auto simp: entry_iff_long_def)
next
  case False
  from assms have "entry_implies_long t0"
    by (simp add: flat_entry_iff_long entry_iff_long_implies)
  then obtain t evs where "run cfg t0 ops = Inr (t, evs)" and "entry_implies_long t"
    using run_entry_implies_long [of t0 cfg ops] by blast
  with False show ?thesis by (auto simp: entry_implies_long_def)
qed

text \<open>A holding found on the account, sold, and a position bought at 2.\<close>

theorem entry_price_defined_implies_long_witness:
  "flat (init\<lparr>client := True\<rparr>) \<and>
   run default_config (init\<lparr>client := True\<rparr>)
     [CheckAccountBalance (Free 1) (Some 3) 0,
      ExecuteTrade one_candle (Some ''SELL'') (Some 3),
      ExecuteTrade one_candle (Some ''BUY'') (Some 2)] =
     Inr (init\<lparr>client := True, account_balance := 1, account_value := 3,
               entry_price := Some 2, position := Some ''LONG''\<rparr>,
          [AccountBalanceUpdated 1 3,
           TradeSignal ''SELL'' 3, ChartDataReady [quiet_latest], ChartDataReady [quiet_latest],
           TradeSignal ''BUY'' 2, ChartDataReady [quiet_latest], ChartDataReady [quiet_latest]])"
  using entry_price_defined_implies_long [of "init\<lparr>client := True\<rparr>" default_config
     "[CheckAccountBalance (Free 1) (Some 3) 0,
       ExecuteTrade one_candle (Some ''SELL'') (Some 3),
       ExecuteTrade one_candle (Some ''BUY'') (Some 2)]"]
  by (simp add: flat_def init_def execute_trade_def check_account_balance_def
        get_latest_price_def truthy_num_def refresh_chart_def get_klines_def one_candle_def
        fl_eval)

text \<open>
  With a client connected, one balance check that finds 1 coin on the account leaves the
  tracker long with no entry price.
\<close>

theorem balance_sets_long_without_entry:
  "flat (init\<lparr>client := True\<rparr>) \<and>
   run default_config (init\<lparr>client := True\<rparr>) [CheckAccountBalance (Free 1) (Some 3) 0] =
     Inr (init\<lparr>client := True, account_balance := 1, account_value := 3,
               position := Some ''LONG''\<rparr>, [AccountBalanceUpdated 1 3]) \<and>
   position (init\<lparr>client := True, account_balance := 1, account_value := 3,
               position := Some ''LONG''\<rparr>) = Some ''LONG'' \<and>
   entry_price (init\<lparr>client := True, account_balance := 1, account_value := 3,
               position := Some ''LONG''\<rparr>) = None"
  by (simp add: flat_def init_def check_account_balance_def get_latest_price_def fl_eval)

section \<open>Stop-loss and take-profit\<close>

text \<open>
  C1 (as amended): for every state the tracker reaches from its initial state with position
  long and a defined entry price, and every numeric current price, the check fires stop-loss
  exactly when the price is at or below the stop-loss level, otherwise take-profit exactly
  when the price is at or above the take-profit level, and otherwise nothing. The levels are
  \<open>entry * (1 - stop_loss_percent / 100)\<close> and \<open>entry * (1 + take_profit_percent / 100)\<close> as the
  code computes them, each operation rounded to a double. A fired check emits exactly one
  stop event, before the chart refresh, carrying \<open>(price - entry) / entry * 100\<close> in the same
  arithmetic, and resets the position to flat with the entry price cleared.
\<close>

theorem check_stop_conditions_fires:
  assumes "flat t0" and "run cfg0 t0 ops = Inr (t, evs0)"
    and "position t = Some ''LONG''" and "entry_price t = Some e"
  shows "check_stop_conditions cfg t kl (Some p) =
           (if p \<le> fl (e * fl (1 - fl (stop_loss_percent cfg / 100))) then
              Inr (t\<lparr>position := None, entry_price := None\<rparr>,
                   StopConditionTriggered ''STOP_LOSS'' p (fl (fl (fl (p - e) / e) * 100)) #
                     refresh_chart t kl, True)
            else if p \<ge> fl (e * fl (1 + fl (take_profit_percent cfg / 100))) then
              Inr (t\<lparr>position := None, entry_price := None\<rparr>,
                   StopConditionTriggered ''TAKE_PROFIT'' p (fl (fl (fl (p - e) / e) * 100)) #
                     refresh_chart t kl, True)
            else Inr (t, [], False))"
proof -
  from assms(1) have "entry_implies_long t0"
    by (simp add: flat_entry_iff_long entry_iff_long_implies)
  with assms(2) have "entry_implies_long t"
    using run_entry_implies_long [of t0 cfg0 ops] by auto
  with assms(4) have "e \<noteq> 0" by (auto simp: entry_implies_long_def)
  with assms(3,4) show ?thesis
    by (simp add: check_stop_conditions_def stop_loss_level_def take_profit_level_def
          profit_percent_def Let_def)
qed

text \<open>Scenario C: bought at 100, stop-loss 5 percent, price 94.\<close>

theorem check_stop_conditions_fires_witness:
  "flat init \<and>
   run default_config init [ExecuteTrade one_candle (Some ''BUY'') (Some 100)] =
     Inr (init\<lparr>entry_price := Some 100, position := Some ''LONG''\<rparr>,
          TradeSignal ''BUY'' 100 # refresh_chart init one_candle) \<and>
   check_stop_conditions default_config
       (init\<lparr>entry_price := Some 100, position := Some ''LONG''\<rparr>) one_candle (Some 94) =
     Inr (init\<lparr>entry_price := None, position := None\<rparr>,
          [StopConditionTriggered ''STOP_LOSS'' 94 (- 6), MonitoringError,
           ChartDataReady [quiet_latest], ChartDataReady [quiet_latest]], True)"
proof -
  let ?t = "init\<lparr>entry_price := Some 100, position := Some ''LONG''\<rparr>"
  have f: "flat init" by (simp add: flat_def init_def)
  have r: "run default_config init [ExecuteTrade one_candle (Some ''BUY'') (Some 100)] =
     Inr (?t, TradeSignal ''BUY'' 100 # refresh_chart init one_candle)"
    by (simp add: execute_trade_def truthy_num_def init_def)
  have p: "position ?t = Some ''LONG''" and e: "entry_price ?t = Some 100" by simp_all
  have l: "(94::real) \<le> fl (100 * fl (1 - fl (stop_loss_percent default_config / 100)))"
    and q: "fl (fl (fl (94 - 100) / 100) * 100) = - 6"
    by (simp_all add: default_config_def fl_eval)
  have c: "refresh_chart ?t one_candle =
     [MonitoringError, ChartDataReady [quiet_latest], ChartDataReady [quiet_latest]]"
    by (simp add: refresh_chart_def get_klines_def one_candle_def init_def)
  from check_stop_conditions_fires [OF f r p e, where p = 94 and cfg = default_config
         and kl = one_candle] l
  have "check_stop_conditions default_config ?t one_candle (Some 94) =
          Inr (?t\<lparr>position := None, entry_price := None\<rparr>,
               StopConditionTriggered ''STOP_LOSS'' 94 (fl (fl (fl (94 - 100) / 100) * 100)) #
                 refresh_chart ?t one_candle, True)"
    by simp
  then have "check_stop_conditions default_config ?t one_candle (Some 94) =
          Inr (init\<lparr>entry_price := None, position := None\<rparr>,
               [StopConditionTriggered ''STOP_LOSS'' 94 (- 6), MonitoringError,
                ChartDataReady [quiet_latest], ChartDataReady [quiet_latest]], True)"
    unfolding q c by simp
  with f r show ?thesis by simp
qed

text \<open>
  Bought at 100 with take-profit at 10 percent, then checked at 110: the price is at the
  exact level \<open>100 * (1 + 10 / 100)\<close> and above the exact stop-loss level, the level the code
  computes is the next double above 110, and the check emits nothing and leaves the position
  long.
\<close>

theorem check_stop_conditions_exact_level:
  "run default_config init
     [ExecuteTrade one_candle (Some ''BUY'') (Some 100),
      CheckStopConditions one_candle (Some 110)] =
     Inr (init\<lparr>entry_price := Some 100, position := Some ''LONG''\<rparr>,
          TradeSignal ''BUY'' 100 # refresh_chart init one_candle) \<and>
   (110::real) \<ge> 100 * (1 + take_profit_percent default_config / 100) \<and>
   \<not> (110::real) \<le> 100 * (1 - stop_loss_percent default_config / 100) \<and>
   take_profit_level default_config 100 = 7740561859543041 / 70368744177664 \<and>
   check_stop_conditions default_config
       (init\<lparr>entry_price := Some 100, position := Some ''LONG''\<rparr>) one_candle (Some 110) =
     Inr (init\<lparr>entry_price := Some 100, position := Some ''LONG''\<rparr>, [], False)"
proof -
  have l: "stop_loss_level default_config 100 = 95"
    "take_profit_level default_config 100 = 7740561859543041 / 70368744177664"
    by (simp_all add: stop_loss_level_def take_profit_level_def default_config_def fl_eval)
  have c: "check_stop_conditions default_config
       (init\<lparr>entry_price := Some 100, position := Some ''LONG''\<rparr>) one_candle (Some 110) =
     Inr (init\<lparr>entry_price := Some 100, position := Some ''LONG''\<rparr>, [], False)"
    by (simp add: check_stop_conditions_def l Let_def)
  have "position init = None" by (simp add: init_def)
  then have b: "execute_trade init one_candle (Some ''BUY'') (Some 100) =
     (init\<lparr>entry_price := Some 100, position := Some ''LONG''\<rparr>,
      TradeSignal ''BUY'' 100 # refresh_chart init one_candle)"
    by (simp add: execute_trade_def truthy_num_def)
  have r: "run default_config init
     [ExecuteTrade one_candle (Some ''BUY'') (Some 100),
      CheckStopConditions one_candle (Some 110)] =
     Inr (init\<lparr>entry_price := Some 100, position := Some ''LONG''\<rparr>,
          TradeSignal ''BUY'' 100 # refresh_chart init one_candle)"
    by (simp add: b c)
  from r c l show ?thesis by (simp add: default_config_def)
qed

section \<open>Simulated prices\<close>

lemma simulated_prices_Cons:
  assumes "get_simulated_price t u = (t1, p)"
  shows "snd (simulated_prices t (u # us)) = p # snd (simulated_prices t1 us)"
    and "fst (simulated_prices t (u # us)) = fst (simulated_prices t1 us)"
  using assms by (simp_all split: prod.splits)

lemma get_simulated_price_persists:
  "get_simulated_price t u = (t1, p) \<Longrightarrow> last_simulated_price t1 = Some p"
  by (auto simp: get_simulated_price_def Let_def split: option.splits)

lemma simulated_prices_length: "length (snd (simulated_prices t us)) = length us"
proof (induction us arbitrary: t)
  case Nil
  then show ?case by simp
next
  case (Cons u us)
  obtain t1 p where g: "get_simulated_price t u = (t1, p)" by (cases "get_simulated_price t u")
  show ?case using Cons.IH [of t1] by (simp only: simulated_prices_Cons [OF g] list.size)
qed

lemma simulated_prices_first:
  "snd (simulated_prices t (u # us)) ! 0 =
     (case last_simulated_price t of
        None \<Rightarrow> fl 1.2345
      | Some v \<Rightarrow> fl (v * fl (1 + uniform (- fl 0.005) (fl 0.005) u)))"
  by (auto simp: get_simulated_price_def Let_def split: prod.splits option.splits)

lemma simulated_prices_next:
  "Suc i < length us \<Longrightarrow>
     snd (simulated_prices t us) ! Suc i =
       fl (snd (simulated_prices t us) ! i *
           fl (1 + uniform (- fl 0.005) (fl 0.005) (us ! Suc i)))"
proof (induction us arbitrary: t i)
  case Nil
  then show ?case by simp
next
  case (Cons u us)
  obtain t1 p where g: "get_simulated_price t u = (t1, p)" by (cases "get_simulated_price t u")
  then have l: "last_simulated_price t1 = Some p" by (rule get_simulated_price_persists)
  note s = simulated_prices_Cons(1) [OF g, of us]
  show ?case
  proof (cases i)
    case 0
    with Cons.prems obtain d ds where "us = d # ds" by (cases us) auto
    with 0 s l show ?thesis using simulated_prices_first [of t1 d ds] by simp
  next
    case (Suc j)
    with Cons.prems have "Suc j < length us" by simp
    from Cons.IH [OF this, of t1] Suc s show ?thesis by simp
  qed
qed

lemma simulated_prices_persists:
  "us \<noteq> [] \<Longrightarrow>
     last_simulated_price (fst (simulated_prices t us)) = Some (last (snd (simulated_prices t us)))"
proof (induction us arbitrary: t)
  case Nil
  then show ?case by simp
next
  case (Cons u us)
  obtain t1 p where g: "get_simulated_price t u = (t1, p)" by (cases "get_simulated_price t u")
  then have l: "last_simulated_price t1 = Some p" by (rule get_simulated_price_persists)
  note s = simulated_prices_Cons [OF g, of us]
  show ?case
  proof (cases "us = []")
    case True
    with s l show ?thesis by simp
  next
    case False
    then have "snd (simulated_prices t1 us) \<noteq> []"
      using simulated_prices_length [of t1 us] by auto
    with Cons.IH [OF False, of t1] s show ?thesis by simp
  qed
qed

text \<open>
  The doubles behind \<^verbatim>\<open>random.uniform(-0.005, 0.005)\<close>: the literal \<^verbatim>\<open>0.005\<close> and the width
  \<^verbatim>\<open>b - a\<close> of the interval.
\<close>

lemma half_percent_double:
  "fl 0.005 = 5764607523034235 / 1152921504606846976"
  "fl (5764607523034235 / 1152921504606846976 - - (5764607523034235 / 1152921504606846976)) =
     5764607523034235 / 576460752303423488"
  by (simp_all add: fl_eval)

lemma abs_diff_bounds:
  fixes x y e :: real
  assumes "\<bar>x - y\<bar> \<le> e"
  shows "y - e \<le> x" and "x \<le> y + e"
  using assms by linarith+

lemma fl_error_bounds:
  assumes "\<bar>x\<bar> \<le> b"
  shows "x - b / 9007199254740992 \<le> fl x" and "fl x \<le> x + b / 9007199254740992"
proof -
  have "\<bar>fl x - x\<bar> \<le> \<bar>x\<bar> / 9007199254740992" using fl_error [of x] by simp
  also from assms have "\<dots> \<le> b / 9007199254740992" by (simp add: divide_right_mono)
  finally have "\<bar>fl x - x\<bar> \<le> b / 9007199254740992" .
  then show "x - b / 9007199254740992 \<le> fl x" and "fl x \<le> x + b / 9007199254740992"
    by (rule abs_diff_bounds)+
qed

lemma uniform_bound:
  assumes "0 \<le> u" and "u < 1"
  shows "\<bar>uniform (- fl 0.005) (fl 0.005) u\<bar> \<le> 0.005 + 1 / 10 ^ 17"
proof -
  define d :: real where "d = 5764607523034235 / 576460752303423488"
  define a :: real where "a = 5764607523034235 / 1152921504606846976"
  define q where "q = fl (d * u)"
  define c where "c = fl (- a + q)"
  have u: "uniform (- fl 0.005) (fl 0.005) u = c"
    unfolding uniform_def half_percent_double c_def q_def d_def a_def by (rule refl)
  have d: "0 \<le> d" by (simp add: d_def)
  with assms have du: "0 \<le> d * u" "d * u \<le> d"
    by (simp_all add: mult_left_le)
  then have "\<bar>d * u\<bar> \<le> d * u" by simp
  from fl_error_bounds [OF this] du
  have q: "0 \<le> q" "q \<le> d + d / 9007199254740992"
    unfolding q_def by - linarith+
  then have s: "- (5000000000000002 / 1000000000000000000) \<le> - a + q"
    "- a + q \<le> 5000000000000002 / 1000000000000000000"
    unfolding a_def d_def by - linarith+
  then have "\<bar>- a + q\<bar> \<le> 5000000000000002 / 1000000000000000000"
    by linarith
  from fl_error_bounds [OF this] s
  have "- (500000000000001 / 100000000000000000) \<le> c"
    "c \<le> 500000000000001 / 100000000000000000"
    unfolding c_def by - linarith+
  then have "\<bar>c\<bar> \<le> 500000000000001 / 100000000000000000" by linarith
  with u show ?thesis by simp
qed

lemma walk_step_bound:
  assumes "\<bar>c\<bar> \<le> 0.005 + 1 / 10 ^ 17"
  shows "\<bar>fl (v * fl (1 + c)) - v\<bar> \<le> (0.005 + 1 / 10 ^ 15) * \<bar>v\<bar>"
proof -
  define s where "s = fl (1 + c)"
  from assms have "\<bar>c\<bar> \<le> 500000000000001 / 100000000000000000" by simp
  then have c: "c \<le> 500000000000001 / 100000000000000000"
    "- (500000000000001 / 100000000000000000) \<le> c" by - linarith+
  then have "\<bar>1 + c\<bar> \<le> 2" by linarith
  from fl_error_bounds [OF this] c
  have s1: "s - 1 \<le> 5000000000000300 / 1000000000000000000"
    "- (5000000000000300 / 1000000000000000000) \<le> s - 1"
    unfolding s_def by - linarith+
  then have a: "\<bar>s\<bar> / 9007199254740992 + \<bar>s - 1\<bar> \<le> 5000000000001000 / 1000000000000000000"
    by linarith
  have "\<bar>fl (v * s) - v * s\<bar> \<le> \<bar>v * s\<bar> / 9007199254740992" using fl_error [of "v * s"] by simp
  moreover have "\<bar>v * s\<bar> = \<bar>v\<bar> * \<bar>s\<bar>" by (rule abs_mult)
  moreover have "\<bar>v * s - v\<bar> = \<bar>v\<bar> * \<bar>s - 1\<bar>"
    by (simp add: abs_mult [symmetric] algebra_simps)
  moreover have "\<bar>fl (v * s) - v\<bar> \<le> \<bar>fl (v * s) - v * s\<bar> + \<bar>v * s - v\<bar>" by linarith
  ultimately have "\<bar>fl (v * s) - v\<bar>
      \<le> \<bar>v\<bar> * \<bar>s\<bar> / 9007199254740992 + \<bar>v\<bar> * \<bar>s - 1\<bar>" by linarith
  also have "\<dots> = \<bar>v\<bar> * (\<bar>s\<bar> / 9007199254740992 + \<bar>s - 1\<bar>)" by (simp add: algebra_simps)
  also have "\<dots> \<le> \<bar>v\<bar> * (5000000000001000 / 1000000000000000000)"
    using a by (intro mult_left_mono) auto
  also have "\<dots> \<le> \<bar>v\<bar> * (0.005 + 1 / 10 ^ 15)"
    by (intro mult_left_mono) auto
  finally show ?thesis by (simp add: s_def mult.commute)
qed

text \<open>
  C7 (as amended): the first fallback call of a tracker returns the double \<^verbatim>\<open>1.2345\<close>; every
  later call, drawing \<^verbatim>\<open>random()\<close> in \<open>[0, 1)\<close>, returns the rounded product of the previous
  simulated value and the rounded \<open>1 + c\<close>, where \<open>c\<close> is the value of
  \<^verbatim>\<open>random.uniform(-0.005, 0.005)\<close> and \<open>|c| \<le> 0.005 + 1/10^17\<close>; each value is within
  \<open>0.5% + 1/10^15\<close> (relative) of the previous one; and the last value returned is the one stored in
  \<^verbatim>\<open>last_simulated_price\<close>.
\<close>

theorem simulated_price_walk:
  assumes "last_simulated_price t = None" and "us \<noteq> []"
    and "\<forall>u \<in> set us. 0 \<le> u \<and> u < 1"
  shows "length (snd (simulated_prices t us)) = length us \<and>
         snd (simulated_prices t us) ! 0 = fl 1.2345 \<and>
         (\<forall>i. Suc i < length us \<longrightarrow>
            snd (simulated_prices t us) ! Suc i =
              fl (snd (simulated_prices t us) ! i *
                  fl (1 + uniform (- fl 0.005) (fl 0.005) (us ! Suc i))) \<and>
            \<bar>uniform (- fl 0.005) (fl 0.005) (us ! Suc i)\<bar> \<le> 0.005 + 1 / 10 ^ 17 \<and>
            \<bar>snd (simulated_prices t us) ! Suc i - snd (simulated_prices t us) ! i\<bar>
              \<le> (0.005 + 1 / 10 ^ 15) * \<bar>snd (simulated_prices t us) ! i\<bar>) \<and>
         last_simulated_price (fst (simulated_prices t us)) =
           Some (last (snd (simulated_prices t us)))"
proof -
  from assms(2) obtain d ds where us: "us = d # ds" by (cases us) auto
  have first: "snd (simulated_prices t us) ! 0 = fl 1.2345"
    using simulated_prices_first [of t d ds] assms(1) us by simp
  have steps: "snd (simulated_prices t us) ! Suc i =
              fl (snd (simulated_prices t us) ! i *
                  fl (1 + uniform (- fl 0.005) (fl 0.005) (us ! Suc i))) \<and>
            \<bar>uniform (- fl 0.005) (fl 0.005) (us ! Suc i)\<bar> \<le> 0.005 + 1 / 10 ^ 17 \<and>
            \<bar>snd (simulated_prices t us) ! Suc i - snd (simulated_prices t us) ! i\<bar>
              \<le> (0.005 + 1 / 10 ^ 15) * \<bar>snd (simulated_prices t us) ! i\<bar>"
    if "Suc i < length us" for i
  proof -
    from that have "us ! Suc i \<in> set us" by simp
    with assms(3) have "0 \<le> us ! Suc i" "us ! Suc i < 1" by auto
    then have b: "\<bar>uniform (- fl 0.005) (fl 0.005) (us ! Suc i)\<bar> \<le> 0.005 + 1 / 10 ^ 17"
      by (rule uniform_bound)
    from simulated_prices_next [OF that, of t] walk_step_bound [OF b] b
    show ?thesis by simp
  qed
  from first steps simulated_prices_length [of t us] simulated_prices_persists [OF assms(2), of t]
  show ?thesis by blast
qed

text \<open>
  Three calls with \<^verbatim>\<open>random()\<close> giving 0, 0.5 and 0: the seed, the seed again (the change
  drawn is 0), and the seed lowered by the double \<^verbatim>\<open>0.005\<close>.
\<close>

theorem simulated_price_walk_witness:
  "last_simulated_price init = None \<and>
   snd (simulated_prices init [0, 1 / 2, 0]) =
     [5559693739988877 / 4503599627370496, 5559693739988877 / 4503599627370496,
      5531895271288933 / 4503599627370496] \<and>
   last_simulated_price (fst (simulated_prices init [0, 1 / 2, 0])) =
     Some (5531895271288933 / 4503599627370496)"
proof -
  have s: "snd (simulated_prices init [0, 1 / 2, 0]) =
     [5559693739988877 / 4503599627370496, 5559693739988877 / 4503599627370496,
      5531895271288933 / 4503599627370496]"
    by (simp add: get_simulated_price_def uniform_def init_def fl_eval)
  have n: "last_simulated_price init = None" by (simp add: init_def)
  have "\<forall>u \<in> set [0, 1 / 2, 0 :: real]. 0 \<le> u \<and> u < 1" by simp
  from simulated_price_walk [OF n _ this] s n show ?thesis by simp
qed

text \<open>
  Three calls with \<^verbatim>\<open>random()\<close> giving 0 each time, so that every change drawn is the double
  \<^verbatim>\<open>-0.005\<close>: the third value differs from the second by more than 0.5 percent of the
  second, the double \<^verbatim>\<open>0.005\<close> being larger than 0.005 and the product being rounded down.
\<close>

theorem simulated_price_beyond_half_percent:
  "last_simulated_price init = None \<and>
   snd (simulated_prices init [0, 0, 0]) =
     [5559693739988877 / 4503599627370496, 5531895271288933 / 4503599627370496,
      688029474366561 / 562949953421312] \<and>
   0.005 * \<bar>snd (simulated_prices init [0, 0, 0]) ! 1\<bar> <
     \<bar>snd (simulated_prices init [0, 0, 0]) ! 2 - snd (simulated_prices init [0, 0, 0]) ! 1\<bar>"
proof -
  have s: "snd (simulated_prices init [0, 0, 0]) =
     [5559693739988877 / 4503599627370496, 5531895271288933 / 4503599627370496,
      688029474366561 / 562949953421312]"
    by (simp add: get_simulated_price_def uniform_def init_def fl_eval)
  have n: "last_simulated_price init = None" by (simp add: init_def)
  show ?thesis unfolding s using n by simp
qed


section \<open>Signal gating and thresholds\<close>

lemma fl_nonneg: "0 \<le> x \<Longrightarrow> 0 \<le> fl x"
proof -
  assume x: "0 \<le> x"
  have "\<bar>fl x - x\<bar> \<le> \<bar>x\<bar> / 9007199254740992" using fl_error [of x] by simp
  with x show ?thesis by linarith
qed

lemma fl_pos: "0 < x \<Longrightarrow> 0 < fl x"
proof -
  assume x: "0 < x"
  have "\<bar>fl x - x\<bar> \<le> \<bar>x\<bar> / 9007199254740992" using fl_error [of x] by simp
  with x show ?thesis by linarith
qed

lemma frame_rows:
  "length (frame prev latest) = 26"
  "frame prev latest \<noteq> []"
  "latest = last (frame prev latest)"
  "prev = last (butlast (frame prev latest))"
  by (simp_all add: frame_def butlast_append)

lemma frame_length: "length (frame prev latest) \<ge> 26"
  by (simp add: frame_def)

lemma frame_nth:
  "last (frame prev latest) = latest"
  "last (butlast (frame prev latest)) = prev"
  by (simp_all add: frame_def butlast_append)

text \<open>
  C4: on a DataFrame that is empty, has fewer than 26 rows, or has a null among the required
  cells (close, ma5, ma25, rsi, macd, macd_signal of the latest row; ma5, ma25, macd,
  macd_signal of the previous row), \<^verbatim>\<open>check_signals\<close> returns \<^verbatim>\<open>None\<close>, emits no event at all (so
  neither BUY nor SELL), and leaves the tracker, with its position and entry price, as it was.
\<close>

theorem check_signals_gated:
  assumes "df = [] \<or> length df < 26 \<or>
           list_ex (\<lambda>i. i = None) (required_indicators (last df) (last (butlast df)))"
  shows "check_signals cfg t df = (t, [], None)"
  using assms by (auto simp: check_signals_def Let_def)

text \<open>A frame of two rows, and a frame of 26 rows whose latest MACD is null.\<close>

theorem check_signals_gated_witness:
  "length [crossover_prev, crossover_latest] < 26 \<and>
   check_signals default_config init [crossover_prev, crossover_latest] = (init, [], None) \<and>
   list_ex (\<lambda>i. i = None)
     (required_indicators (crossover_latest\<lparr>macd := None\<rparr>) crossover_prev) \<and>
   check_signals default_config init (frame crossover_prev (crossover_latest\<lparr>macd := None\<rparr>)) =
     (init, [], None)"
proof -
  have l: "length [crossover_prev, crossover_latest] < 26" by simp
  have n: "list_ex (\<lambda>i. i = None)
     (required_indicators (crossover_latest\<lparr>macd := None\<rparr>) crossover_prev)"
    by (simp add: required_indicators_def)
  from l have 1: "check_signals default_config init [crossover_prev, crossover_latest] =
      (init, [], None)"
    by (intro check_signals_gated) simp
  from n have 2: "check_signals default_config init
      (frame crossover_prev (crossover_latest\<lparr>macd := None\<rparr>)) = (init, [], None)"
    by (intro check_signals_gated) (simp add: frame_rows(1) frame_nth)
  from l n 1 2 show ?thesis by simp
qed

text \<open>
  C3 (as amended): on a DataFrame of at least 26 rows whose last two rows have all required
  indicators non-null, with sentiment factor 0, \<^verbatim>\<open>check_signals\<close> returns BUY exactly when
  \<open>buy_score \<ge> 0.6\<close>, which is exactly when the technical BUY condition holds: previous short
  MA at or below previous long MA and latest short MA above latest long MA, RSI below 50,
  previous MACD line at or below its signal and latest MACD line above its signal. With RSI
  not below 50 no BUY is returned.
\<close>

theorem check_signals_buy_iff_technical:
  assumes "length df \<ge> 26"
    and "latest = last df" and "prev = last (butlast df)"
    and "\<not> list_ex (\<lambda>i. i = None) (required_indicators latest prev)"
    and "sentiment_factor cfg t = 0"
  shows "(snd (snd (check_signals cfg t df)) = Some ''BUY'' \<longleftrightarrow>
            buy_score cfg t latest prev \<ge> 0.6) \<and>
         (buy_score cfg t latest prev \<ge> 0.6 \<longleftrightarrow>
            (the (ma5 prev) \<le> the (ma25 prev) \<and> the (ma5 latest) > the (ma25 latest)) \<and>
            the (rsi latest) < 50 \<and>
            (the (macd prev) \<le> the (macd_signal prev) \<and>
             the (macd latest) > the (macd_signal latest))) \<and>
         (\<not> the (rsi latest) < 50 \<longrightarrow> snd (snd (check_signals cfg t df)) \<noteq> Some ''BUY'')"
proof -
  from assms(5) have b: "buy_score cfg t latest prev = (if buy_signal_tech latest prev then 1 else 0)"
    by (simp add: buy_score_def fl_values)
  have g: "\<not> (df = [] \<or> length df < 26)" using assms(1) by auto
  from fl_six_tenths have k: "(1::real) \<ge> fl 0.6" "\<not> (0::real) \<ge> fl 0.6" by simp_all
  from g assms(2-4) b k
  have 1: "snd (snd (check_signals cfg t df)) = Some ''BUY'' \<longleftrightarrow> buy_signal_tech latest prev"
    by (simp add: check_signals_def Let_def)
  from b have 2: "buy_score cfg t latest prev \<ge> 0.6 \<longleftrightarrow> buy_signal_tech latest prev"
    by simp
  from 1 2 show ?thesis by (auto simp: buy_signal_tech_def)
qed

text \<open>The crossover frame gives BUY; the same frame with RSI at 50 does not.\<close>

theorem check_signals_buy_iff_technical_witness:
  "sentiment_factor default_config init = 0 \<and>
   \<not> list_ex (\<lambda>i. i = None) (required_indicators crossover_latest crossover_prev) \<and>
   buy_score default_config init crossover_latest crossover_prev \<ge> 0.6 \<and>
   snd (snd (check_signals default_config init (frame crossover_prev crossover_latest))) = Some ''BUY'' \<and>
   snd (snd (check_signals default_config init
               (frame crossover_prev (crossover_latest\<lparr>rsi := Some 50\<rparr>)))) \<noteq> Some ''BUY''"
proof -
  have f: "sentiment_factor default_config init = 0"
    by (simp add: sentiment_factor_def init_def default_config_def)
  have n: "\<not> list_ex (\<lambda>i. i = None) (required_indicators crossover_latest crossover_prev)"
    by (simp add: required_indicators_def crossover_latest_def crossover_prev_def)
  have n': "\<not> list_ex (\<lambda>i. i = None)
              (required_indicators (crossover_latest\<lparr>rsi := Some 50\<rparr>) crossover_prev)"
    by (simp add: required_indicators_def crossover_latest_def crossover_prev_def)
  have b: "buy_score default_config init crossover_latest crossover_prev \<ge> 0.6"
    by (simp add: buy_score_def buy_signal_tech_def f fl_values crossover_latest_def crossover_prev_def)
  have r: "\<not> the (rsi (crossover_latest\<lparr>rsi := Some 50\<rparr>)) < 50" by simp
  from b check_signals_buy_iff_technical [OF frame_length frame_rows(3,4) n f]
  have 1: "snd (snd (check_signals default_config init (frame crossover_prev crossover_latest))) =
             Some ''BUY''"
    by blast
  from r check_signals_buy_iff_technical [OF frame_length frame_rows(3,4) n' f]
  have 2: "snd (snd (check_signals default_config init
               (frame crossover_prev (crossover_latest\<lparr>rsi := Some 50\<rparr>)))) \<noteq> Some ''BUY''"
    by blast
  from f n b 1 2 show ?thesis by simp
qed

text \<open>
  The crossover pair alone, as a frame of two rows: every required indicator is non-null, the
  sentiment factor is 0, the technical BUY condition holds and \<open>buy_score\<close> is 1, and
  \<^verbatim>\<open>check_signals\<close> returns \<^verbatim>\<open>None\<close>.
\<close>

theorem check_signals_short_frame:
  "\<not> list_ex (\<lambda>i. i = None) (required_indicators crossover_latest crossover_prev) \<and>
   sentiment_factor default_config init = 0 \<and>
   buy_signal_tech crossover_latest crossover_prev \<and>
   buy_score default_config init crossover_latest crossover_prev \<ge> 0.6 \<and>
   check_signals default_config init [crossover_prev, crossover_latest] = (init, [], None)"
  by (simp add: check_signals_def required_indicators_def sentiment_factor_def buy_score_def
        buy_signal_tech_def fl_values crossover_latest_def crossover_prev_def init_def
        default_config_def)


section \<open>Confidence\<close>

lemma sell_needs_technical:
  assumes "sell_score cfg t latest prev \<le> - fl 0.6" and "buy_score cfg t latest prev \<le> 0"
  shows "sell_signal_tech latest prev"
proof (rule ccontr)
  assume n: "\<not> sell_signal_tech latest prev"
  define f where "f = sentiment_factor cfg t"
  from n assms(1) fl_six_tenths(1) have "fl (0 - f) < 0"
    by (simp add: sell_score_def f_def)
  then have "\<not> 0 \<le> 0 - f" using fl_nonneg [of "0 - f"] by auto
  then have "0 < (if buy_signal_tech latest prev then 1 else 0) + f" by simp
  then have "0 < buy_score cfg t latest prev"
    unfolding buy_score_def f_def by (rule fl_pos)
  with assms(2) show False by simp
qed

text \<open>
  C8 (as amended): on a DataFrame that passes both gates, with \<open>factor_count\<close> being 1 plus 1
  if \<^verbatim>\<open>current_sentiment\<close> is a non-empty label, and every operation carried out in double
  arithmetic as the source writes it: a BUY emitted while a technical condition holds carries
  \<open>int(min(100, |buy_score| / (factor_count * 2) * 100))\<close>, truncated to an integer; a BUY
  emitted while neither technical condition holds carries 0; a SELL emitted while
  \<open>buy_score \<le> 0\<close> carries \<open>int(min(100, |sell_score| / (factor_count * 2) * 100))\<close>; a NEUTRAL
  outcome carries \<open>max(20, 100 - int(|buy_score - sell_score| * 50))\<close>. Each outcome is followed
  by the chart event for the frame.
\<close>

theorem confidence_emitted:
  assumes "length df \<ge> 26"
    and "latest = last df" and "prev = last (butlast df)"
    and "\<not> list_ex (\<lambda>i. i = None) (required_indicators latest prev)"
    and "b = buy_score cfg t latest prev" and "s = sell_score cfg t latest prev"
    and "r = check_signals cfg t df"
  shows "(snd (snd r) = Some ''BUY'' \<and> (buy_signal_tech latest prev \<or> sell_signal_tech latest prev) \<longrightarrow>
            fst (snd r) =
              [SignalStatusUpdated ''BUY'' (BuyAdvice (stop_loss_level cfg (the (close latest))))
                 (py_int (min 100 (fl (fl (\<bar>b\<bar> / of_int (total_factors t * 2)) * 100)))),
               ChartDataReady df]) \<and>
         (snd (snd r) = Some ''BUY'' \<and> \<not> (buy_signal_tech latest prev \<or> sell_signal_tech latest prev) \<longrightarrow>
            fst (snd r) =
              [SignalStatusUpdated ''BUY'' (BuyAdvice (stop_loss_level cfg (the (close latest)))) 0,
               ChartDataReady df]) \<and>
         (snd (snd r) = Some ''SELL'' \<and> b \<le> 0 \<longrightarrow>
            fst (snd r) =
              [SignalStatusUpdated ''SELL'' (SellAdvice (take_profit_level cfg (the (close latest))))
                 (py_int (min 100 (fl (fl (\<bar>s\<bar> / of_int (total_factors t * 2)) * 100)))),
               ChartDataReady df]) \<and>
         (snd (snd r) = None \<longrightarrow>
            fst (snd r) =
              [SignalStatusUpdated ''NEUTRAL'' NeutralAdvice
                 (max 20 (100 - py_int (fl (\<bar>fl (b - s)\<bar> * 50)))),
               ChartDataReady df])"
proof -
  have g: "\<not> (df = [] \<or> length df < 26)" using assms(1) by auto
  show ?thesis
  proof (cases "b \<ge> fl 0.6")
    case True
    with fl_six_tenths(1) have "b > 0" by simp
    with True g assms show ?thesis
      by (simp add: check_signals_def Let_def confidence_def confidence_of_def)
  next
    case nb: False
    show ?thesis
    proof (cases "s \<le> - fl 0.6")
      case True
      show ?thesis
      proof (cases "b \<le> 0")
        case b0: True
        with True assms have "sell_signal_tech latest prev"
          using sell_needs_technical [of cfg t latest prev] by simp
        with True nb b0 g assms show ?thesis
          by (simp add: check_signals_def Let_def confidence_def confidence_of_def)
      next
        case False
        with True nb g assms show ?thesis
          by (simp add: check_signals_def Let_def)
      qed
    next
      case False
      with nb g assms show ?thesis
        by (simp add: check_signals_def Let_def neutrality_score_def)
    qed
  qed
qed

text \<open>
  Four outcomes whose emitted confidence is not the value of the claimed formula: a technical
  BUY with sentiment score 0.25 emits 28 where the formula gives 28.125; a BUY that the
  sentiment factor 0.75 produces with no technical condition emits 0 where the formula gives
  18.75; a technical SELL under the positive sentiment score 0.5, where \<open>buy_score\<close> is 0.25
  and \<open>sell_score\<close> is -1.25, emits 6 (from \<open>buy_score\<close>) where the formula on \<open>sell_score\<close>
  gives 31.25; a NEUTRAL outcome with sentiment factor 0.125 emits 88 where the formula gives
  87.5. All the numbers involved are doubles, so no rounding takes part.
\<close>

theorem confidence_differs_from_formula:
  "fst (snd (check_signals default_config
               (init\<lparr>current_sentiment := Some ''positive'', sentiment_score := 0.25\<rparr>)
               (frame crossover_prev crossover_latest))) =
     [SignalStatusUpdated ''BUY'' (BuyAdvice (stop_loss_level default_config 2)) 28,
      ChartDataReady (frame crossover_prev crossover_latest)] \<and>
   min 100 (\<bar>buy_score default_config
                 (init\<lparr>current_sentiment := Some ''positive'', sentiment_score := 0.25\<rparr>)
                 crossover_latest crossover_prev\<bar> / ((1 + 1) * 2) * 100) = 28.125 \<and>
   fst (snd (check_signals (default_config\<lparr>sentiment_influence_weight := Some 0.75\<rparr>)
               (init\<lparr>current_sentiment := Some ''positive'', sentiment_score := 1\<rparr>)
               (frame crossover_prev quiet_latest))) =
     [SignalStatusUpdated ''BUY'' (BuyAdvice (stop_loss_level default_config 1)) 0,
      ChartDataReady (frame crossover_prev quiet_latest)] \<and>
   min 100 (\<bar>buy_score (default_config\<lparr>sentiment_influence_weight := Some 0.75\<rparr>)
                 (init\<lparr>current_sentiment := Some ''positive'', sentiment_score := 1\<rparr>)
                 quiet_latest crossover_prev\<bar> / ((1 + 1) * 2) * 100) = 18.75 \<and>
   fst (snd (check_signals default_config
               (init\<lparr>current_sentiment := Some ''positive'', sentiment_score := 0.5\<rparr>)
               (frame crossunder_prev crossunder_latest))) =
     [SignalStatusUpdated ''SELL'' (SellAdvice (take_profit_level default_config 1)) 6,
      ChartDataReady (frame crossunder_prev crossunder_latest)] \<and>
   min 100 (\<bar>sell_score default_config
                 (init\<lparr>current_sentiment := Some ''positive'', sentiment_score := 0.5\<rparr>)
                 crossunder_latest crossunder_prev\<bar> / ((1 + 1) * 2) * 100) = 31.25 \<and>
   fst (snd (check_signals default_config
               (init\<lparr>current_sentiment := Some ''positive'', sentiment_score := 0.25\<rparr>)
               (frame crossover_prev quiet_latest))) =
     [SignalStatusUpdated ''NEUTRAL'' NeutralAdvice 88,
      ChartDataReady (frame crossover_prev quiet_latest)] \<and>
   max 20 (100 - \<bar>buy_score default_config
                     (init\<lparr>current_sentiment := Some ''positive'', sentiment_score := 0.25\<rparr>)
                     quiet_latest crossover_prev
                   - sell_score default_config
                     (init\<lparr>current_sentiment := Some ''positive'', sentiment_score := 0.25\<rparr>)
                     quiet_latest crossover_prev\<bar> * 50) = 87.5"
  by (simp add: check_signals_def frame_rows(1,2) frame_nth required_indicators_def
        confidence_def confidence_of_def neutrality_score_def buy_score_def sell_score_def
        buy_signal_tech_def sell_signal_tech_def stop_loss_level_def take_profit_level_def
        sentiment_factor_def total_factors_def truthy_str_def py_int_def fl_eval
        crossover_prev_def crossover_latest_def crossunder_prev_def crossunder_latest_def
        quiet_latest_def init_def default_config_def)

text \<open>
  A technical BUY under the sentiment score \<^verbatim>\<open>0.32\<close>: \<open>buy_score\<close> is the double \<^verbatim>\<open>1.16\<close>, the
  quotient by 4 is \<^verbatim>\<open>0.29\<close>, its product with 100 rounds to \<^verbatim>\<open>28.999999999999996\<close>, and
  the confidence emitted is 28. A NEUTRAL outcome under the sentiment score \<^verbatim>\<open>-0.58\<close>: the
  scores are \<^verbatim>\<open>-0.29\<close> and \<^verbatim>\<open>0.29\<close>, the product of their distance with 50 rounds to
  \<^verbatim>\<open>28.999999999999996\<close>, and the confidence emitted is 72.
\<close>

theorem confidence_emitted_witness:
  "snd (snd (check_signals default_config
               (init\<lparr>current_sentiment := Some ''positive'', sentiment_score := fl 0.32\<rparr>)
               (frame crossover_prev crossover_latest))) = Some ''BUY'' \<and>
   buy_signal_tech crossover_latest crossover_prev \<and>
   fst (snd (check_signals default_config
               (init\<lparr>current_sentiment := Some ''positive'', sentiment_score := fl 0.32\<rparr>)
               (frame crossover_prev crossover_latest))) =
     [SignalStatusUpdated ''BUY'' (BuyAdvice (stop_loss_level default_config 2)) 28,
      ChartDataReady (frame crossover_prev crossover_latest)] \<and>
   snd (snd (check_signals default_config
               (init\<lparr>current_sentiment := Some ''negative'', sentiment_score := fl (- 0.58)\<rparr>)
               (frame crossover_prev quiet_latest))) = None \<and>
   fst (snd (check_signals default_config
               (init\<lparr>current_sentiment := Some ''negative'', sentiment_score := fl (- 0.58)\<rparr>)
               (frame crossover_prev quiet_latest))) =
     [SignalStatusUpdated ''NEUTRAL'' NeutralAdvice 72,
      ChartDataReady (frame crossover_prev quiet_latest)]"
proof -
  let ?t = "init\<lparr>current_sentiment := Some ''positive'', sentiment_score := fl 0.32\<rparr>"
  let ?u = "init\<lparr>current_sentiment := Some ''negative'', sentiment_score := fl (- 0.58)\<rparr>"
  have n: "\<not> list_ex (\<lambda>i. i = None) (required_indicators crossover_latest crossover_prev)"
    by (simp add: required_indicators_def crossover_latest_def crossover_prev_def)
  have m: "\<not> list_ex (\<lambda>i. i = None) (required_indicators quiet_latest crossover_prev)"
    by (simp add: required_indicators_def quiet_latest_def crossover_prev_def)
  from confidence_emitted [OF frame_length frame_rows(3,4) n refl refl refl,
      where cfg = default_config and t = ?t]
    confidence_emitted [OF frame_length frame_rows(3,4) m refl refl refl,
      where cfg = default_config and t = ?u]
  show ?thesis
    by (simp add: check_signals_def frame_rows(1,2) frame_nth required_indicators_def
        confidence_def confidence_of_def neutrality_score_def buy_score_def sell_score_def
        buy_signal_tech_def sell_signal_tech_def stop_loss_level_def take_profit_level_def
        sentiment_factor_def total_factors_def truthy_str_def py_int_def fl_eval
        crossover_prev_def crossover_latest_def
        quiet_latest_def init_def default_config_def)
qed

section \<open>Sentiment cache\<close>

lemma sort_same_set:
  fixes xs ys :: "'a::linorder list"
  assumes "distinct xs" and "distinct ys" and "set ys = set xs"
  shows "sort ys = sort xs"
  using assms by (intro sorted_distinct_set_unique) simp_all

lemma request_only_after_parse:
  assumes "call_deepseek_for_analysis h cfg t now reply xs = (t', evs, res)"
    and "evs = [DeepSeekRequest xs]"
  shows "t' = t\<lparr>news_cache := (news_cache t)(h (sort xs) \<mapsto> (now, res))\<rparr>"
  using assms
  by (auto simp: call_deepseek_for_analysis_def Let_def
        split: option.splits if_splits api_reply.splits prod.splits)

lemma fresh_entry_hit:
  assumes "news_cache t (h (sort xs)) = Some (ct, res)" and "now - ct < cache_expiry t"
  shows "call_deepseek_for_analysis h cfg t now reply xs = (t, [], res)"
  using assms by (simp add: call_deepseek_for_analysis_def)

text \<open>
  C6 (as amended): once a call has sent its request and parsed the response at time \<open>t1\<close>
  (its only event is the request), every call at a time \<open>t2\<close> with \<open>t2 - t1 < 3600\<close> on the same
  deduplicated headline set, in any order, returns the tuple of the first call, sends no
  request and leaves the tracker as it is, whatever the endpoint would answer.
\<close>

theorem cached_analysis_reused:
  assumes "call_deepseek_for_analysis h cfg t t1 reply1 xs = (t', evs1, res1)"
    and "evs1 = [DeepSeekRequest xs]"
    and "cache_expiry t = 3600" and "t2 - t1 < 3600"
    and "distinct xs" and "distinct ys" and "set ys = set xs"
  shows "call_deepseek_for_analysis h cfg t' t2 reply2 ys = (t', [], res1)"
proof -
  from request_only_after_parse [OF assms(1,2)]
  have t': "t' = t\<lparr>news_cache := (news_cache t)(h (sort xs) \<mapsto> (t1, res1))\<rparr>" .
  from assms(5-7) have k: "sort ys = sort xs" by (rule sort_same_set)
  from t' k have "news_cache t' (h (sort ys)) = Some (t1, res1)" by simp
  moreover from t' assms(3,4) have "t2 - t1 < cache_expiry t'" by simp
  ultimately show ?thesis by (rule fresh_entry_hit)
qed

text \<open>Two headlines analysed at time 0, then asked again in the other order at time 3599.\<close>

theorem cached_analysis_reused_witness:
  "fst (snd (call_deepseek_for_analysis (\<lambda>hs. int (length hs))
               (default_config\<lparr>deepseek_api_key := Some ''k''\<rparr>) init 0
               (Content (Some ''positive'') (Some 0.8) (Some [79, 75])) [[66], [65]])) =
     [DeepSeekRequest [[66], [65]]] \<and>
   snd (call_deepseek_for_analysis (\<lambda>hs. int (length hs))
          (default_config\<lparr>deepseek_api_key := Some ''k''\<rparr>)
          (fst (call_deepseek_for_analysis (\<lambda>hs. int (length hs))
                  (default_config\<lparr>deepseek_api_key := Some ''k''\<rparr>) init 0
                  (Content (Some ''positive'') (Some 0.8) (Some [79, 75])) [[66], [65]]))
          3599 (Failed []) [[65], [66]]) =
     ([], ([79, 75], Some ''positive'', 0.8))"
proof -
  let ?h = "\<lambda>hs :: unicode list. int (length hs)"
  let ?cfg = "default_config\<lparr>deepseek_api_key := Some ''k''\<rparr>"
  let ?first = "call_deepseek_for_analysis ?h ?cfg init 0
                  (Content (Some ''positive'') (Some 0.8) (Some [79, 75])) [[66], [65]]"
  have e: "fst (snd ?first) = [DeepSeekRequest [[66], [65]]]"
    and r: "snd (snd ?first) = ([79, 75], Some ''positive'', 0.8)"
    by (simp_all add: call_deepseek_for_analysis_def Let_def init_def default_config_def truthy_str_def)
  have c: "cache_expiry init = 3600" by (simp add: init_def)
  have p: "?first = (fst ?first, fst (snd ?first), snd (snd ?first))" by simp
  have d: "(3599::real) - 0 < 3600" by simp
  have x: "distinct [[66], [65::nat]]" and y: "distinct [[65], [66::nat]]" by simp_all
  have z: "set [[65], [66::nat]] = set [[66], [65]]" by auto
  from cached_analysis_reused [OF p e c d x y z, of "Failed []"]
  have "call_deepseek_for_analysis ?h ?cfg (fst ?first) 3599 (Failed []) [[65], [66]] =
          (fst ?first, [], snd (snd ?first))" by simp
  with e r show ?thesis by simp
qed

text \<open>
  A first call whose request fails stores nothing: it leaves the tracker unchanged, and a
  second call ten seconds later on the same two headlines sends a request again and returns
  another tuple.
\<close>

theorem failed_analysis_not_cached:
  "call_deepseek_for_analysis (\<lambda>hs. int (length hs))
     (default_config\<lparr>deepseek_api_key := Some ''k''\<rparr>) init 0 (Failed [33]) [[65], [66]] =
     (init, [DeepSeekRequest [[65], [66]], MonitoringError], ([33], Some ''neutral'', 0)) \<and>
   snd (call_deepseek_for_analysis (\<lambda>hs. int (length hs))
          (default_config\<lparr>deepseek_api_key := Some ''k''\<rparr>) init 10
          (Content (Some ''positive'') (Some 0.8) (Some [79, 75])) [[66], [65]]) =
     ([DeepSeekRequest [[66], [65]]], ([79, 75], Some ''positive'', 0.8))"
  by (simp add: call_deepseek_for_analysis_def Let_def init_def default_config_def truthy_str_def)

section \<open>Empty news\<close>

text \<open>
  C9: with news fetching enabled and an empty aggregated headline list,
  \<^verbatim>\<open>fetch_and_process_news\<close> returns the tuple of the fixed text \<^term>\<open>msg_no_news\<close>, the label
  \<^verbatim>\<open>"neutral"\<close> and 0.0, emits no request to the completion endpoint, and only records the text
  as the last processed news.
\<close>

theorem no_headlines_no_analysis:
  assumes "news_enabled cfg" and "all_headlines cfg env = []"
  shows "snd (snd (fetch_and_process_news h cfg t env)) = (msg_no_news, Some ''neutral'', 0) \<and>
         \<not> list_ex is_request (fst (snd (fetch_and_process_news h cfg t env))) \<and>
         fst (fetch_and_process_news h cfg t env) = t\<lparr>last_processed_news := Some msg_no_news\<rparr>"
  using assms
  by (auto simp: fetch_and_process_news_def Let_def source_headlines_def list_ex_iff
        split: option.splits)

text \<open>GNews configured and failing, NewsAPI not configured, no RSS article.\<close>

theorem no_headlines_no_analysis_witness:
  "news_enabled (default_config\<lparr>gnews_api_key := Some ''g''\<rparr>) \<and>
   all_headlines (default_config\<lparr>gnews_api_key := Some ''g''\<rparr>)
     \<lparr>gnews_headlines = None, newsapi_headlines = Some [[78]], rss_headlines = [],
      news_time = 0, deepseek_reply = Failed []\<rparr> = [] \<and>
   snd (fetch_and_process_news (\<lambda>hs. int (length hs)) (default_config\<lparr>gnews_api_key := Some ''g''\<rparr>)
          init
          \<lparr>gnews_headlines = None, newsapi_headlines = Some [[78]], rss_headlines = [],
           news_time = 0, deepseek_reply = Failed []\<rparr>) =
     ([MonitoringError],
      [0x672A, 0x80FD, 0x83B7, 0x53D6, 0x5230, 0x76F8, 0x5173, 0x65B0, 0x95FB, 0x3002],
      Some ''neutral'', 0)"
proof -
  let ?cfg = "default_config\<lparr>gnews_api_key := Some ''g''\<rparr>"
  let ?env = "\<lparr>gnews_headlines = None, newsapi_headlines = Some [[78]], rss_headlines = [],
      news_time = 0, deepseek_reply = Failed []\<rparr>"
  have a: "news_enabled ?cfg" by (simp add: default_config_def)
  have b: "all_headlines ?cfg ?env = []"
    by (simp add: all_headlines_def source_headlines_def default_config_def truthy_str_def)
  have c: "fst (snd (fetch_and_process_news (\<lambda>hs. int (length hs)) ?cfg init ?env)) = [MonitoringError]"
    by (simp add: fetch_and_process_news_def Let_def all_headlines_def source_headlines_def default_config_def truthy_str_def)
  from no_headlines_no_analysis [OF a b, of "\<lambda>hs. int (length hs)" init] c a b
  show ?thesis by (simp add: msg_no_news_def prod_eq_iff)
qed

section \<open>First iteration of a session\<close>

lemma get_klines_events: "filter price_or_alert (fst (get_klines t ans)) = []"
  by (simp add: get_klines_def)

lemma refresh_chart_events: "filter price_or_alert (refresh_chart t ans) = []"
  by (simp add: refresh_chart_def get_klines_def)

lemma execute_trade_events: "filter price_or_alert (snd (execute_trade t kl s p)) = []"
  by (simp add: execute_trade_def refresh_chart_events)

lemma check_signals_events: "filter price_or_alert (fst (snd (check_signals cfg t df))) = []"
  by (simp add: check_signals_def Let_def)

lemma signal_phase_events:
  "filter price_or_alert (fst (signal_phase cfg r env p a t l)) = []"
  by (simp add: signal_phase_def Let_def split_beta get_klines_events check_signals_events
        execute_trade_events)

lemma check_stop_conditions_events:
  "check_stop_conditions cfg t kl p = Inr (t', evs, c) \<Longrightarrow> filter price_or_alert evs = []"
  by (auto simp: check_stop_conditions_def Let_def refresh_chart_events split: if_splits)

lemma get_latest_price_events:
  "filter price_or_alert (fst (snd (get_latest_price t k u))) = []"
  by (auto simp: get_latest_price_def split: prod.splits option.splits)

lemma get_latest_price_previous:
  "previous_price (fst (get_latest_price t k u)) = previous_price t"
  by (auto simp: get_latest_price_def get_simulated_price_def Let_def split: prod.splits option.splits)

lemma stop_phase_events:
  "filter price_or_alert (fst (stop_phase cfg r env p a t l)) = []"
proof (cases "if position t = Some ''LONG''
              then check_stop_conditions cfg t (env_stop_klines env) (Some p)
              else Inr (t, [], False)")
  case (Inl e)
  then show ?thesis by (simp add: stop_phase_def)
next
  case (Inr x)
  obtain t1 evs1 c where x: "x = (t1, evs1, c)" by (cases x) auto
  from Inr x have "filter price_or_alert evs1 = []"
    using check_stop_conditions_events [of cfg t "env_stop_klines env" "Some p" t1 evs1 c]
    by (auto split: if_splits)
  with Inr x show ?thesis
    using signal_phase_events [of cfg r env p a t1 l]
    by (simp add: stop_phase_def split_beta refresh_chart_events)
qed

lemma price_phase_events:
  assumes "previous_price t = None"
  shows "filter price_or_alert (fst (snd (snd (price_phase cfg env t l)))) =
           [PriceUpdated (snd (snd (get_latest_price t (env_ticker env) (env_random env)))) 0]"
  using assms get_latest_price_events [of t "env_ticker env" "env_random env"]
    get_latest_price_previous [of t "env_ticker env" "env_random env"]
  by (simp add: price_phase_def Let_def split_beta pct_change_def price_alert_def)

text \<open>
  C10: in the first loop iteration after \<^verbatim>\<open>start_monitoring\<close>, whatever the price fetched, the
  alert threshold, the refresh interval and the rest of the state, the price-update and
  price-alert events emitted are exactly one price update, for the fetched price with a
  change of 0.0; no price alert is emitted.
\<close>

theorem first_iteration_no_alert:
  "filter price_or_alert (fst (loop_iteration cfg r env (start_monitoring t) l)) =
     [PriceUpdated
        (snd (snd (get_latest_price (start_monitoring t) (env_ticker env) (env_random env)))) 0]"
proof -
  have "previous_price (start_monitoring t) = None" by (simp add: start_monitoring_def)
  from price_phase_events [OF this, of cfg env l] show ?thesis
    by (simp add: loop_iteration_def split_beta stop_phase_events)
qed

text \<open>
  A session started at a previous price of 1 with alert threshold 0 and no client: the one
  price event carries the double nearest to 1.2345 and a change of 0.
\<close>

theorem first_iteration_no_alert_witness:
  "filter price_or_alert
     (fst (loop_iteration (default_config\<lparr>price_alert_threshold := Some 0\<rparr>) 15
             \<lparr>env_time = 0, env_ticker = None, env_random = 0, env_klines = one_candle,
              env_stop_klines = one_candle, env_closed_klines = one_candle,
              env_trade_klines = one_candle\<rparr>
             (start_monitoring (init\<lparr>previous_price := Some 1\<rparr>)) (initial_loop_state 0))) =
     [PriceUpdated (5559693739988877 / 4503599627370496) 0]"
proof -
  have "snd (snd (get_latest_price (start_monitoring (init\<lparr>previous_price := Some 1\<rparr>))
                    None 0)) = 5559693739988877 / 4503599627370496"
    by (simp add: get_latest_price_def get_simulated_price_def start_monitoring_def init_def
          fl_eval)
  with first_iteration_no_alert
          [of "default_config\<lparr>price_alert_threshold := Some 0\<rparr>" 15
              "\<lparr>env_time = 0, env_ticker = None, env_random = 0, env_klines = one_candle,
                env_stop_klines = one_candle, env_closed_klines = one_candle,
                env_trade_klines = one_candle\<rparr>"
              "init\<lparr>previous_price := Some 1\<rparr>" "initial_loop_state 0"]
  show ?thesis by simp
qed

end
